theory Spec2Isabelle
  imports Main "HOL-Library.List_Lexorder"
begin

section \<open>JavaScript values\<close>

text \<open>
  The service is a JavaScript program (\<^verbatim>\<open>src/index.js\<close>). A JavaScript string is a
  sequence of UTF-16 code units; a code unit is a natural number here, and \<open>ascii\<close>
  turns an ASCII literal into such a sequence. A value that arrives as JSON, or that
  is absent (\<open>undefined\<close>), is a \<open>jsval\<close>. Numbers are the integers: the statistics,
  identifiers and limits of the service are integers. A JavaScript number is an IEEE
  double, so of the integers only those that are doubles are values: every integer up
  to \<open>2 ^ 53\<close> in magnitude, and beyond it the multiples of the power of two that leaves
  53 significant bits.
  The property list of \<open>JObj\<close> is in the order JavaScript enumerates the properties.
\<close>

type_synonym jsstring = "nat list"

definition ascii :: "string \<Rightarrow> jsstring" where
  "ascii s = map of_char s"

datatype jsval =
    JUndefined
  | JNull
  | JBool bool
  | JNum int
  | JStr jsstring
  | JArr "jsval list"
  | JObj "(jsstring \<times> jsval) list"

type_synonym jsobject = "(jsstring \<times> jsval) list"

text \<open>
  An exception: \<open>Thrown m\<close> is \<^verbatim>\<open>new Error(m)\<close> raised by the source itself, the others
  are raised by the runtime (a \<open>TypeError\<close> for a property of \<open>null\<close> or a call of
  something that is no function, a \<open>URIError\<close> of \<^verbatim>\<open>decodeURIComponent\<close>, a rejected
  \<^verbatim>\<open>fetch\<close> with its message) or by the driver of the store (\<open>StoreError\<close>, and
  \<open>CastError\<close> for a filter value that the driver cannot cast to the type of its field).
\<close>

datatype jserror =
  TypeError | URIError | FetchRejected jsstring | StoreError | CastError | Thrown jsstring

text \<open>The truth value JavaScript gives a value in \<^verbatim>\<open>!v\<close>, \<^verbatim>\<open>v || d\<close> and \<^verbatim>\<open>if (v)\<close>.\<close>

fun truthy :: "jsval \<Rightarrow> bool" where
  "truthy JUndefined = False"
| "truthy JNull = False"
| "truthy (JBool b) = b"
| "truthy (JNum n) = (n \<noteq> 0)"
| "truthy (JStr s) = (s \<noteq> [])"
| "truthy (JArr xs) = True"
| "truthy (JObj kvs) = True"

text \<open>\<^verbatim>\<open>typeof v === 'object'\<close>: true of \<open>null\<close>, of arrays and of objects.\<close>

fun typeof_object :: "jsval \<Rightarrow> bool" where
  "typeof_object JNull = True"
| "typeof_object (JArr xs) = True"
| "typeof_object (JObj kvs) = True"
| "typeof_object v = False"

fun typeof_string :: "jsval \<Rightarrow> bool" where
  "typeof_string (JStr s) = True"
| "typeof_string v = False"

subsection \<open>Numbers as text\<close>

fun dec_digits :: "nat \<Rightarrow> jsstring" where
  "dec_digits n = (if n < 10 then [48 + n] else dec_digits (n div 10) @ [48 + n mod 10])"

declare dec_digits.simps [simp del]

text \<open>
  The text of a number (\<^verbatim>\<open>Number.prototype.toString\<close>, which \<^verbatim>\<open>JSON.stringify\<close> and a
  template literal use). Up to \<open>2 ^ 53\<close> in magnitude an integer prints as its decimal
  numeral. Beyond it the runtime prints the shortest digits that read back as the same
  double, padded with zeros, and in exponent form from \<open>10 ^ 21\<close>; that text is the
  parameter \<open>numberToString\<close>.
\<close>

definition js_number_string :: "(int \<Rightarrow> jsstring) \<Rightarrow> int \<Rightarrow> jsstring" where
  "js_number_string numberToString n =
     (if 9007199254740992 < \<bar>n\<bar> then numberToString n
      else if n < 0 then 45 # dec_digits (nat (- n))
      else dec_digits (nat n))"

subsection \<open>Arithmetic on doubles\<close>

text \<open>
  The sum of two numbers is the double nearest to the exact sum, a tie going to the
  double whose significand is even. \<open>round_double\<close> is that rounding of an integer
  (below \<open>2 ^ 1024\<close> in magnitude, where the result is finite): an integer of at most 53
  bits is a double, and a longer one keeps its 53 leading bits. \<open>js_plus_one x\<close> is
  \<^verbatim>\<open>x + 1\<close> for a double \<open>x\<close>.
\<close>

fun bit_length :: "nat \<Rightarrow> nat" where
  "bit_length n = (if n = 0 then 0 else Suc (bit_length (n div 2)))"

declare bit_length.simps [simp del]

definition round_double :: "int \<Rightarrow> int" where
  "round_double n =
     (if \<bar>n\<bar> \<le> 9007199254740992 then n
      else
        (let ulp = 2 ^ (bit_length (nat \<bar>n\<bar>) - 53);
             q = \<bar>n\<bar> div ulp;
             r = \<bar>n\<bar> mod ulp;
             significand = (if 2 * r < ulp then q
                            else if ulp < 2 * r then q + 1
                            else if even q then q
                            else q + 1)
         in sgn n * (significand * ulp)))"

definition js_plus_one :: "int \<Rightarrow> int" where
  "js_plus_one x = round_double (x + 1)"

definition is_digit :: "nat \<Rightarrow> bool" where
  "is_digit c = (48 \<le> c \<and> c \<le> 57)"

definition digits_value :: "jsstring \<Rightarrow> nat" where
  "digits_value ds = foldl (\<lambda>a d. 10 * a + (d - 48)) 0 ds"

subsection \<open>Property order of an object\<close>

text \<open>
  JavaScript enumerates the own properties of an object with the array indices first,
  in ascending numeric order, and the other string keys after them in the order they
  were created. An array index is the canonical decimal numeral of an integer from
  \<open>0\<close> to \<open>2 ^ 32 - 2\<close>. \<open>js_set obj k v\<close> is the assignment \<^verbatim>\<open>obj[k] = v\<close> on an object
  created by \<^verbatim>\<open>{}\<close>: an existing property keeps its place, a new array index goes to
  its numeric place, any other new key goes last. The key \<^verbatim>\<open>__proto__\<close> is the
  exception: unless the object has it as an own property, the assignment reaches the
  setter of \<^verbatim>\<open>Object.prototype\<close>, which changes the prototype (for an object or \<open>null\<close>)
  or does nothing, and creates no own property.
\<close>

definition proto_key :: jsstring where
  "proto_key = ascii ''__proto__''"

definition is_array_index :: "jsstring \<Rightarrow> bool" where
  "is_array_index k =
     (k \<noteq> [] \<and> list_all is_digit k \<and> (length k = 1 \<or> take 1 k \<noteq> [48])
      \<and> digits_value k \<le> 4294967294)"

fun put_index :: "nat \<Rightarrow> jsstring \<Rightarrow> jsval \<Rightarrow> jsobject \<Rightarrow> jsobject" where
  "put_index n k v [] = [(k, v)]"
| "put_index n k v ((k', v') # rest) =
     (if is_array_index k' \<and> digits_value k' < n
      then (k', v') # put_index n k v rest
      else (k, v) # (k', v') # rest)"

definition js_set :: "jsobject \<Rightarrow> jsstring \<Rightarrow> jsval \<Rightarrow> jsobject" where
  "js_set obj k v =
     (if k \<in> set (map fst obj)
      then map (\<lambda>p. if fst p = k then (k, v) else p) obj
      else if k = proto_key then obj
      else if is_array_index k then put_index (digits_value k) k v obj
      else obj @ [(k, v)])"

text \<open>
  \<^verbatim>\<open>Object.keys(v)\<close>: the own enumerable string keys. It throws on \<open>undefined\<close> and
  \<open>null\<close>, a boolean or a number has none, a string and an array have their indices.
\<close>

definition index_keys :: "nat \<Rightarrow> jsstring list" where
  "index_keys n = map dec_digits [0..<n]"

fun objectKeys :: "jsval \<Rightarrow> jserror + jsstring list" where
  "objectKeys JUndefined = Inl TypeError"
| "objectKeys JNull = Inl TypeError"
| "objectKeys (JBool b) = Inr []"
| "objectKeys (JNum n) = Inr []"
| "objectKeys (JStr s) = Inr (index_keys (length s))"
| "objectKeys (JArr xs) = Inr (index_keys (length xs))"
| "objectKeys (JObj kvs) = Inr (map fst kvs)"

text \<open>\<^verbatim>\<open>v[k]\<close> for an own property \<open>k\<close>; \<open>undefined\<close> when \<open>v\<close> has no such property.\<close>

fun ownProp :: "jsval \<Rightarrow> jsstring \<Rightarrow> jsval" where
  "ownProp (JObj kvs) k = (case map_of kvs k of Some v \<Rightarrow> v | None \<Rightarrow> JUndefined)"
| "ownProp (JArr xs) k =
     (if is_array_index k \<and> digits_value k < length xs then xs ! digits_value k else JUndefined)"
| "ownProp (JStr s) k =
     (if is_array_index k \<and> digits_value k < length s then JStr [s ! digits_value k] else JUndefined)"
| "ownProp v k = JUndefined"

subsection \<open>Sorting with a comparator\<close>

text \<open>
  \<^verbatim>\<open>Array.prototype.sort(cmp)\<close> is a stable sort: of two elements the comparator does
  not separate, the one that came first stays first. Insertion from the right is such
  a sort.
\<close>

fun insert_cmp :: "('a \<Rightarrow> 'a \<Rightarrow> int) \<Rightarrow> 'a \<Rightarrow> 'a list \<Rightarrow> 'a list" where
  "insert_cmp cmp x [] = [x]"
| "insert_cmp cmp x (y # ys) = (if cmp x y \<le> 0 then x # y # ys else y # insert_cmp cmp x ys)"

definition js_sort :: "('a \<Rightarrow> 'a \<Rightarrow> int) \<Rightarrow> 'a list \<Rightarrow> 'a list" where
  "js_sort cmp xs = foldr (insert_cmp cmp) xs []"

subsection \<open>JSON text\<close>

definition hex_digit :: "nat \<Rightarrow> nat" where
  "hex_digit d = (if d < 10 then 48 + d else 87 + d)"

definition hex4 :: "nat \<Rightarrow> jsstring" where
  "hex4 c = [hex_digit (c div 4096 mod 16), hex_digit (c div 256 mod 16),
             hex_digit (c div 16 mod 16), hex_digit (c mod 16)]"

definition high_surrogate :: "nat \<Rightarrow> bool" where
  "high_surrogate c = (55296 \<le> c \<and> c \<le> 56319)"

definition low_surrogate :: "nat \<Rightarrow> bool" where
  "low_surrogate c = (56320 \<le> c \<and> c \<le> 57343)"

text \<open>One code unit inside a JSON string literal, as \<^verbatim>\<open>JSON.stringify\<close> writes it.\<close>

definition json_unit :: "nat \<Rightarrow> jsstring" where
  "json_unit c =
     (if c = 34 then [92, 34]
      else if c = 92 then [92, 92]
      else if c = 8 then [92, 98]
      else if c = 12 then [92, 102]
      else if c = 10 then [92, 110]
      else if c = 13 then [92, 114]
      else if c = 9 then [92, 116]
      else if c < 32 \<or> high_surrogate c \<or> low_surrogate c then [92, 117] @ hex4 c
      else [c])"

fun json_units :: "jsstring \<Rightarrow> jsstring" where
  "json_units [] = []"
| "json_units [c] = json_unit c"
| "json_units (c # d # cs) =
     (if high_surrogate c \<and> low_surrogate d then c # d # json_units cs
      else json_unit c @ json_units (d # cs))"

definition json_quote :: "jsstring \<Rightarrow> jsstring" where
  "json_quote s = [34] @ json_units s @ [34]"

fun join_comma :: "jsstring list \<Rightarrow> jsstring" where
  "join_comma [] = []"
| "join_comma [x] = x"
| "join_comma (x # y # r) = x @ [44] @ join_comma (y # r)"

text \<open>
  \<^verbatim>\<open>JSON.stringify(v)\<close>: \<open>None\<close> is the result \<open>undefined\<close>. A property whose value is
  \<open>undefined\<close> is left out of an object, and written \<open>null\<close> in an array. The first
  argument is the runtime's text of a number beyond \<open>2 ^ 53\<close>.
\<close>

fun stringify :: "(int \<Rightarrow> jsstring) \<Rightarrow> jsval \<Rightarrow> jsstring option"
  and stringify_elems :: "(int \<Rightarrow> jsstring) \<Rightarrow> jsval list \<Rightarrow> jsstring list"
  and stringify_props :: "(int \<Rightarrow> jsstring) \<Rightarrow> (jsstring \<times> jsval) list \<Rightarrow> jsstring list"
where
  "stringify nts JUndefined = None"
| "stringify nts JNull = Some (ascii ''null'')"
| "stringify nts (JBool b) = Some (if b then ascii ''true'' else ascii ''false'')"
| "stringify nts (JNum n) = Some (js_number_string nts n)"
| "stringify nts (JStr s) = Some (json_quote s)"
| "stringify nts (JArr xs) = Some ([91] @ join_comma (stringify_elems nts xs) @ [93])"
| "stringify nts (JObj kvs) = Some ([123] @ join_comma (stringify_props nts kvs) @ [125])"
| "stringify_elems nts [] = []"
| "stringify_elems nts (x # xs) =
     (case stringify nts x of None \<Rightarrow> ascii ''null'' | Some t \<Rightarrow> t) # stringify_elems nts xs"
| "stringify_props nts [] = []"
| "stringify_props nts (p # ps) =
     (case stringify nts (snd p) of
        None \<Rightarrow> stringify_props nts ps
      | Some t \<Rightarrow> (json_quote (fst p) @ [58] @ t) # stringify_props nts ps)"

subsection \<open>Strings\<close>

text \<open>
  \<^verbatim>\<open>String.prototype.trim\<close> removes the white space and line terminators of
  ECMAScript from both ends; \<^verbatim>\<open>s.startsWith(p)\<close> and \<^verbatim>\<open>s.includes(q)\<close> compare code
  units.
\<close>

definition js_whitespace :: "nat \<Rightarrow> bool" where
  "js_whitespace c =
     (c \<in> {9, 10, 11, 12, 13, 32, 160, 5760, 8232, 8233, 8239, 8287, 12288, 65279}
      \<or> (8192 \<le> c \<and> c \<le> 8202))"

definition trim :: "jsstring \<Rightarrow> jsstring" where
  "trim s = rev (dropWhile js_whitespace (rev (dropWhile js_whitespace s)))"

fun startsWith :: "jsstring \<Rightarrow> jsstring \<Rightarrow> bool" where
  "startsWith s [] = True"
| "startsWith [] (p # ps) = False"
| "startsWith (c # cs) (p # ps) = (c = p \<and> startsWith cs ps)"

fun js_includes :: "jsstring \<Rightarrow> jsstring \<Rightarrow> bool" where
  "js_includes [] q = (q = [])"
| "js_includes (c # cs) q = (startsWith (c # cs) q \<or> js_includes cs q)"

fun string_of :: "jsval \<Rightarrow> jsstring option" where
  "string_of (JStr s) = Some s"
| "string_of v = None"

fun isArray :: "jsval \<Rightarrow> bool" where
  "isArray (JArr xs) = True"
| "isArray v = False"

fun array_elems :: "jsval \<Rightarrow> jsval list" where
  "array_elems (JArr xs) = xs"
| "array_elems v = []"

subsection \<open>\<^verbatim>\<open>parseInt\<close>, \<^verbatim>\<open>Math.min\<close> and \<^verbatim>\<open>Math.max\<close>\<close>

text \<open>
  \<^verbatim>\<open>parseInt(s, 10)\<close> skips leading white space, reads a sign and the longest run of
  decimal digits, and is \<open>NaN\<close> when there is no digit. \<open>Math.min\<close> and \<open>Math.max\<close>
  are \<open>NaN\<close> as soon as an argument is.
\<close>

datatype jsnum = NaN | Finite int

definition parseInt10 :: "jsstring \<Rightarrow> jsnum" where
  "parseInt10 s =
     (let t = dropWhile js_whitespace s;
          u = (if take 1 t = [45] \<or> take 1 t = [43] then drop 1 t else t);
          ds = takeWhile is_digit u
      in if ds = [] then NaN
         else if take 1 t = [45] then Finite (- int (digits_value ds))
         else Finite (int (digits_value ds)))"

fun js_min :: "jsnum \<Rightarrow> jsnum \<Rightarrow> jsnum" where
  "js_min (Finite a) (Finite b) = Finite (min a b)"
| "js_min a b = NaN"

fun js_max :: "jsnum \<Rightarrow> jsnum \<Rightarrow> jsnum" where
  "js_max (Finite a) (Finite b) = Finite (max a b)"
| "js_max a b = NaN"

section \<open>Records, audit entries and responses\<close>

text \<open>
  Modelled from the spec: the schema of the record collection (\<^verbatim>\<open>schema/pokemon.js\<close>)
  is not among the sources. A stored record has a numeric \<open>id\<close>, the two names, the
  list of types, the \<open>base\<close> statistics and the image URL; \<open>base\<close> is the value the
  document holds, \<open>JUndefined\<close> when the document has no such field.
\<close>

record pokemon =
  pokemon_id :: int
  name_english :: jsstring
  name_french :: jsstring
  types :: "jsval list"
  base :: jsval
  image_url :: jsstring

text \<open>An audit entry (\<^verbatim>\<open>schema/auditLog.js\<close>, with the timestamp of its creation).\<close>

datatype audit_action = CREATE | UPDATE | DELETE

record audit_entry =
  action :: audit_action
  pokemonName :: jsstring
  sourceIp :: jsstring
  statusCode :: nat
  createdAt :: nat

text \<open>
  The outgoing representation of a record: the document and its \<open>integrityHash\<close>.
  A response is a status code and a JSON payload: \<open>ErrorReply m\<close> is \<^verbatim>\<open>{ error: m }\<close>
  with a fixed text, \<open>ErrorOf e\<close> is \<^verbatim>\<open>{ error: error.message || 'Internal Server Error' }\<close>
  for the exception \<open>e\<close> that was caught.
\<close>

record sealed =
  doc :: pokemon
  integrityHash :: jsstring

datatype reply =
    ErrorReply jsstring
  | ErrorOf jserror
  | Single sealed
  | Listing "sealed list"
  | Logs "audit_entry list"

record http_response =
  status :: nat
  payload :: reply

definition internal_error :: http_response where
  "internal_error = \<lparr>status = 500, payload = ErrorReply (ascii ''Internal Server Error'')\<rparr>"

definition not_found :: http_response where
  "not_found = \<lparr>status = 404, payload = ErrorReply (ascii ''Pokemon not found'')\<rparr>"

section \<open>The runtime\<close>

text \<open>
  What the program calls and the repository does not contain is a parameter: the
  collation of \<^verbatim>\<open>String.prototype.localeCompare\<close>, Unicode normalisation and case
  mapping, the case folding of a case-insensitive regular expression and whether its
  \<open>$\<close> also matches before a final line feed, the keyed hash of
  \<^verbatim>\<open>crypto.createHmac('sha256', key)\<close> (rendered in lowercase hex), the URL parser (the
  host name and the query parameter \<open>u\<close> of a URL that parses), \<^verbatim>\<open>decodeURIComponent\<close>
  (\<open>None\<close> when it throws), \<^verbatim>\<open>path.extname\<close>, the network (\<^verbatim>\<open>fetch\<close>), what the
  audit store does when the limit of a query is \<open>NaN\<close>, the text of a number beyond
  \<open>2 ^ 53\<close>, and the environment variable that holds the secret.
\<close>

datatype fetch_result =
    Rejected jsstring
  | Response (resp_status: nat) (resp_content_type: "jsstring option") (resp_body: "nat list")

record platform =
  localeCompare :: "jsstring \<Rightarrow> jsstring \<Rightarrow> int"
  normalizeNFD :: "jsstring \<Rightarrow> jsstring"
  toLowerCase :: "jsstring \<Rightarrow> jsstring"
  caseFold :: "nat \<Rightarrow> nat"
  dollarBeforeFinalNewline :: bool
  hmacSha256Hex :: "jsstring \<Rightarrow> jsstring \<Rightarrow> jsstring"
  parseURL :: "jsstring \<Rightarrow> (jsstring \<times> jsstring option) option"
  decodeURIComponent :: "jsstring \<Rightarrow> jsstring option"
  pathExtname :: "jsstring \<Rightarrow> jsstring"
  fetch :: "jsstring \<Rightarrow> fetch_result"
  limitNaN :: "audit_entry list \<Rightarrow> jserror + audit_entry list"
  numberToString :: "int \<Rightarrow> jsstring"
  envIntegritySecret :: "jsstring option"

section \<open>The integrity sealer\<close>

text \<open>
  \<^verbatim>\<open>const INTEGRITY_SECRET = process.env.INTEGRITY_SECRET || 'pokedex-zero-trust-seal'\<close>
\<close>

definition INTEGRITY_SECRET :: "platform \<Rightarrow> jsstring" where
  "INTEGRITY_SECRET pf =
     (case envIntegritySecret pf of
        Some s \<Rightarrow> if s \<noteq> [] then s else ascii ''pokedex-zero-trust-seal''
      | None \<Rightarrow> ascii ''pokedex-zero-trust-seal'')"

text \<open>
  \<^verbatim>\<open>function generateIntegritySeal(stats = {}, secret = INTEGRITY_SECRET)\<close>: the keys
  of \<open>stats\<close> are sorted with \<open>localeCompare\<close>, a fresh object receives the properties
  in that order, and the JSON text of the fresh object is hashed. \<open>sealPayload\<close> is
  the text that is hashed. The default \<open>{}\<close> replaces an \<open>undefined\<close> argument only.
\<close>

definition sortedStats :: "platform \<Rightarrow> jsval \<Rightarrow> jsstring list \<Rightarrow> jsobject" where
  "sortedStats pf stats ks =
     foldl (\<lambda>acc key. js_set acc key (ownProp stats key)) [] (js_sort (localeCompare pf) ks)"

definition sealPayload :: "platform \<Rightarrow> jsval \<Rightarrow> jserror + jsstring" where
  "sealPayload pf stats0 =
     (let stats = (if stats0 = JUndefined then JObj [] else stats0) in
      case objectKeys stats of
        Inl e \<Rightarrow> Inl e
      | Inr ks \<Rightarrow>
          (case stringify (numberToString pf) (JObj (sortedStats pf stats ks)) of
             None \<Rightarrow> Inl TypeError
           | Some text \<Rightarrow> Inr text))"

definition generateIntegritySeal :: "platform \<Rightarrow> jsval \<Rightarrow> jsstring \<Rightarrow> jserror + jsstring" where
  "generateIntegritySeal pf stats secret =
     (case sealPayload pf stats of
        Inl e \<Rightarrow> Inl e
      | Inr text \<Rightarrow> Inr (hmacSha256Hex pf secret text))"

text \<open>
  \<^verbatim>\<open>withIntegrityHash(doc)\<close> copies the document and adds \<open>integrityHash\<close>, the seal of
  its \<open>base\<close> under the configured secret. \<open>sealAll\<close> is \<^verbatim>\<open>docs.map(withIntegrityHash)\<close>:
  the first exception ends it.
\<close>

definition withIntegrityHash :: "platform \<Rightarrow> pokemon \<Rightarrow> jserror + sealed" where
  "withIntegrityHash pf d =
     (case generateIntegritySeal pf (base d) (INTEGRITY_SECRET pf) of
        Inl e \<Rightarrow> Inl e
      | Inr h \<Rightarrow> Inr \<lparr>doc = d, integrityHash = h\<rparr>)"

fun sealAll :: "platform \<Rightarrow> pokemon list \<Rightarrow> jserror + sealed list" where
  "sealAll pf [] = Inr []"
| "sealAll pf (d # ds) =
     (case withIntegrityHash pf d of
        Inl e \<Rightarrow> Inl e
      | Inr s \<Rightarrow> (case sealAll pf ds of Inl e \<Rightarrow> Inl e | Inr ss \<Rightarrow> Inr (s # ss)))"

section \<open>Searching and matching names\<close>

text \<open>
  \<^verbatim>\<open>function normalizeForSearch(value)\<close>: canonical decomposition, the combining marks
  \<open>U+0300\<close> to \<open>U+036F\<close> removed, lower case, trimmed. The value is a string here
  (\<^verbatim>\<open>String(value || '')\<close> is the string itself).
\<close>

definition combining_mark :: "nat \<Rightarrow> bool" where
  "combining_mark c = (768 \<le> c \<and> c \<le> 879)"

definition normalizeForSearch :: "platform \<Rightarrow> jsstring \<Rightarrow> jsstring" where
  "normalizeForSearch pf v =
     trim (toLowerCase pf (filter (\<lambda>c. \<not> combining_mark c) (normalizeNFD pf v)))"

text \<open>
  The handlers build the regular expression \<^verbatim>\<open>^escaped$\<close> with the flag \<open>i\<close>, where
  \<open>escaped\<close> is the name with a backslash before each of \<^verbatim>\<open>. * + ? ^ $ { } ( ) | [ ]\<close>
  and before each backslash (\<open>escapeRegExp\<close> names that \<^verbatim>\<open>replace\<close>), and hand it to
  the store. The pattern language is modelled as far as these patterns need it: \<open>^\<close>,
  then literal characters, each either a character that is not special or a backslash
  followed by a character that is not alphanumeric, then \<open>$\<close>. \<open>anchored_literal\<close>
  reads such a pattern and is \<open>None\<close> for any other. A subject matches when it equals
  the literal up to case folding, or, in an engine whose \<open>$\<close> also matches before a
  final line feed, when it is such a subject followed by one line feed.
\<close>

definition regex_special :: "nat \<Rightarrow> bool" where
  "regex_special c = (c \<in> {46, 42, 43, 63, 94, 36, 123, 125, 40, 41, 124, 91, 93, 92})"

definition escapeRegExp :: "jsstring \<Rightarrow> jsstring" where
  "escapeRegExp s = concat (map (\<lambda>c. if regex_special c then [92, c] else [c]) s)"

definition exactNameRegex :: "jsstring \<Rightarrow> jsstring" where
  "exactNameRegex s = [94] @ escapeRegExp s @ [36]"

definition is_alnum :: "nat \<Rightarrow> bool" where
  "is_alnum c = (is_digit c \<or> (65 \<le> c \<and> c \<le> 90) \<or> (97 \<le> c \<and> c \<le> 122))"

fun regex_literal :: "jsstring \<Rightarrow> jsstring option" where
  "regex_literal [] = Some []"
| "regex_literal [c] = (if regex_special c then None else Some [c])"
| "regex_literal (c # d # p) =
     (if c = 92 then (if is_alnum d then None else map_option ((#) d) (regex_literal p))
      else if regex_special c then None
      else map_option ((#) c) (regex_literal (d # p)))"

definition anchored_literal :: "jsstring \<Rightarrow> jsstring option" where
  "anchored_literal pat =
     (case pat of
        [] \<Rightarrow> None
      | c # rest \<Rightarrow>
          if c = 94 \<and> rest \<noteq> [] \<and> last rest = 36 then regex_literal (butlast rest) else None)"

definition regex_test_i :: "platform \<Rightarrow> jsstring \<Rightarrow> jsstring \<Rightarrow> bool" where
  "regex_test_i pf pat subject =
     (case anchored_literal pat of
        None \<Rightarrow> False
      | Some lit \<Rightarrow>
          map (caseFold pf) subject = map (caseFold pf) lit
          \<or> (dollarBeforeFinalNewline pf \<and> subject \<noteq> [] \<and> last subject = 10
              \<and> map (caseFold pf) (butlast subject) = map (caseFold pf) lit))"

section \<open>The record store\<close>

text \<open>
  Modelled from the spec: the record store is an external document collection, here
  the list of its records in their natural order. \<^verbatim>\<open>findOne\<close> gives the first record
  that satisfies the filter; a filter on \<open>id\<close> is an exact match.
  \<^verbatim>\<open>findOne({}).sort({ id: -1 })\<close> gives a record of greatest identifier. The driver of
  the store (the Mongoose model that the source imports) casts the value of a filter to
  the type of its field before it asks the store: for \<open>id\<close>, a number, it rejects \<open>NaN\<close>
  with a \<open>CastError\<close>. The store rejects a negative \<open>skip\<close>.
\<close>

definition findOneById :: "pokemon list \<Rightarrow> jsnum \<Rightarrow> jserror + pokemon option" where
  "findOneById st n =
     (case n of NaN \<Rightarrow> Inl CastError | Finite i \<Rightarrow> Inr (find (\<lambda>p. pokemon_id p = i) st))"

fun latestById :: "pokemon list \<Rightarrow> pokemon option" where
  "latestById [] = None"
| "latestById (p # ps) =
     Some (foldl (\<lambda>m q. if pokemon_id m < pokemon_id q then q else m) p ps)"

definition findDuplicate :: "platform \<Rightarrow> pokemon list \<Rightarrow> jsstring \<Rightarrow> jsstring \<Rightarrow> pokemon option" where
  "findDuplicate pf st e f =
     find (\<lambda>p. regex_test_i pf (exactNameRegex e) (name_english p)
              \<or> regex_test_i pf (exactNameRegex f) (name_french p)) st"

section \<open>The image fetcher\<close>

text \<open>\<^verbatim>\<open>function resolveDownloadUrl(rawUrl)\<close>\<close>

definition resolveDownloadUrl :: "platform \<Rightarrow> jsstring \<Rightarrow> jsstring" where
  "resolveDownloadUrl pf rawUrl =
     (case parseURL pf rawUrl of
        None \<Rightarrow> rawUrl
      | Some parsed \<Rightarrow>
          if fst parsed = ascii ''external-content.duckduckgo.com''
          then (case snd parsed of
                  None \<Rightarrow> rawUrl
                | Some original \<Rightarrow>
                    if original = [] then rawUrl
                    else (case decodeURIComponent pf original of
                            Some decoded \<Rightarrow> decoded
                          | None \<Rightarrow> original))
          else rawUrl)"

text \<open>
  \<^verbatim>\<open>async function downloadPokemonImage(imageUrl)\<close>: \<^verbatim>\<open>response.ok\<close> is a status from
  200 to 299. The result is the buffer and the content type, or the exception.
\<close>

definition response_ok :: "nat \<Rightarrow> bool" where
  "response_ok st = (200 \<le> st \<and> st \<le> 299)"

definition header_or_empty :: "jsstring option \<Rightarrow> jsstring" where
  "header_or_empty h = (case h of None \<Rightarrow> [] | Some c \<Rightarrow> c)"

definition downloadPokemonImage :: "platform \<Rightarrow> jsstring \<Rightarrow> jserror + (nat list \<times> jsstring)" where
  "downloadPokemonImage pf imageUrl =
     (let resolvedUrl = resolveDownloadUrl pf imageUrl in
      case fetch pf resolvedUrl of
        Rejected m \<Rightarrow> Inl (FetchRejected m)
      | Response st ct bytes \<Rightarrow>
          if \<not> response_ok st
          then Inl (Thrown (ascii ''Image download failed ('' @ dec_digits st
                            @ ascii '') from '' @ resolvedUrl))
          else
            (let contentType = header_or_empty ct in
             if \<not> startsWith (toLowerCase pf contentType) (ascii ''image/'')
             then Inl (Thrown (ascii ''Provided URL did not return an image (content-type: ''
                               @ (if contentType = [] then ascii ''unknown'' else contentType)
                               @ ascii '')''))
             else Inr (bytes, contentType)))"

text \<open>\<^verbatim>\<open>function getImageExtension(contentType, imageUrl)\<close>\<close>

definition contentTypeMap :: "(jsstring \<times> jsstring) list" where
  "contentTypeMap =
     [(ascii ''image/png'', ascii ''.png''),
      (ascii ''image/jpeg'', ascii ''.jpg''),
      (ascii ''image/jpg'', ascii ''.jpg''),
      (ascii ''image/webp'', ascii ''.webp''),
      (ascii ''image/gif'', ascii ''.gif''),
      (ascii ''image/avif'', ascii ''.avif''),
      (ascii ''image/svg+xml'', ascii ''.svg'')]"

definition getImageExtension :: "platform \<Rightarrow> jsstring \<Rightarrow> jsstring \<Rightarrow> jsstring" where
  "getImageExtension pf contentType imageUrl =
     (case map_of contentTypeMap (toLowerCase pf contentType) of
        Some fromType \<Rightarrow> fromType
      | None \<Rightarrow>
          (let cleanUrl = toLowerCase pf (takeWhile (\<lambda>c. c \<noteq> 63) imageUrl);
               ext = pathExtname pf cleanUrl
           in if ext = [] then ascii ''.png'' else ext))"

section \<open>The request dispatcher\<close>

subsection \<open>Reading\<close>

text \<open>\<^verbatim>\<open>app.get('/pokemons', ...)\<close>\<close>

definition pokemons :: "platform \<Rightarrow> pokemon list \<Rightarrow> http_response" where
  "pokemons pf st =
     (case sealAll pf st of
        Inl e \<Rightarrow> internal_error
      | Inr ss \<Rightarrow> \<lparr>status = 200, payload = Listing ss\<rparr>)"

text \<open>
  \<^verbatim>\<open>app.get('/pokemonsByPage/:page', ...)\<close>: \<open>pageNumber\<close> is
  \<^verbatim>\<open>parseInt(req.params.page, 10) || 0\<close>, which is 0 for \<open>NaN\<close>; this handler answers a
  failure with the message of the exception.
\<close>

definition pageNumber :: "jsstring \<Rightarrow> int" where
  "pageNumber pageParam = (case parseInt10 pageParam of NaN \<Rightarrow> 0 | Finite n \<Rightarrow> n)"

definition pokemonsByPage :: "platform \<Rightarrow> pokemon list \<Rightarrow> jsstring \<Rightarrow> http_response" where
  "pokemonsByPage pf st pageParam =
     (let page = pageNumber pageParam in
      if page < 0 then \<lparr>status = 500, payload = ErrorOf StoreError\<rparr>
      else
        (case sealAll pf (take 20 (drop (20 * nat page) st)) of
           Inl e \<Rightarrow> \<lparr>status = 500, payload = ErrorOf e\<rparr>
         | Inr ss \<Rightarrow> \<lparr>status = 200, payload = Listing ss\<rparr>))"

text \<open>The tail of the handlers of one record: 404 without a record, else its sealed form.\<close>

definition respondOne :: "platform \<Rightarrow> pokemon option \<Rightarrow> http_response" where
  "respondOne pf found =
     (case found of
        None \<Rightarrow> not_found
      | Some poke \<Rightarrow>
          (case withIntegrityHash pf poke of
             Inl e \<Rightarrow> internal_error
           | Inr s \<Rightarrow> \<lparr>status = 200, payload = Single s\<rparr>))"

text \<open>\<^verbatim>\<open>app.get('/pokemons/:id', ...)\<close>\<close>

definition getPokemonById :: "platform \<Rightarrow> pokemon list \<Rightarrow> jsstring \<Rightarrow> http_response" where
  "getPokemonById pf st idParam =
     (case findOneById st (parseInt10 idParam) of
        Inl e \<Rightarrow> internal_error
      | Inr found \<Rightarrow> respondOne pf found)"

text \<open>\<^verbatim>\<open>app.get('/pokemonByName/:name', ...)\<close>\<close>

definition getPokemonByName :: "platform \<Rightarrow> pokemon list \<Rightarrow> jsstring \<Rightarrow> http_response" where
  "getPokemonByName pf st pokeName = respondOne pf (find (\<lambda>p. name_english p = pokeName) st)"

text \<open>\<^verbatim>\<open>app.get('/pokemonExactByName/:name', ...)\<close>\<close>

definition getPokemonExactByName :: "platform \<Rightarrow> pokemon list \<Rightarrow> jsstring \<Rightarrow> http_response" where
  "getPokemonExactByName pf st nameParam =
     (let inputName = trim nameParam in
      if inputName = [] then \<lparr>status = 400, payload = ErrorReply (ascii ''name is required'')\<rparr>
      else respondOne pf (findDuplicate pf st inputName inputName))"

text \<open>
  \<^verbatim>\<open>app.get('/pokemonsSearch', ...)\<close>: the query parameter \<open>name\<close> is absent or a
  string.
\<close>

definition searchMatches :: "platform \<Rightarrow> jsstring \<Rightarrow> pokemon \<Rightarrow> bool" where
  "searchMatches pf normalizedQuery p =
     (js_includes (normalizeForSearch pf (name_english p)) normalizedQuery
      \<or> js_includes (normalizeForSearch pf (name_french p)) normalizedQuery)"

definition pokemonsSearch :: "platform \<Rightarrow> pokemon list \<Rightarrow> jsstring option \<Rightarrow> http_response" where
  "pokemonsSearch pf st query =
     (let name = trim (case query of None \<Rightarrow> [] | Some q \<Rightarrow> q) in
      if name = [] then \<lparr>status = 200, payload = Listing []\<rparr>
      else
        (let normalizedQuery = normalizeForSearch pf name;
             allPokemons = take 1000 st
         in case sealAll pf (take 50 (filter (searchMatches pf normalizedQuery) allPokemons)) of
              Inl e \<Rightarrow> internal_error
            | Inr ss \<Rightarrow> \<lparr>status = 200, payload = Listing ss\<rparr>))"

subsection \<open>Audit lookup\<close>

text \<open>
  \<^verbatim>\<open>app.get('/auditLogs/:name', ...)\<close>. \<open>auditLimit\<close> is
  \<^verbatim>\<open>Math.max(1, Math.min(parseInt(req.query.limit || '20', 10), 100))\<close>, the query
  parameter \<open>limit\<close> being absent or a string.
\<close>

definition auditLimit :: "jsstring option \<Rightarrow> jsnum" where
  "auditLimit q =
     js_max (Finite 1)
       (js_min (parseInt10 (case q of None \<Rightarrow> ascii ''20''
                                   | Some l \<Rightarrow> if l = [] then ascii ''20'' else l))
               (Finite 100))"

definition auditLogs ::
  "platform \<Rightarrow> audit_entry list \<Rightarrow> jsstring \<Rightarrow> jsstring option \<Rightarrow> http_response" where
  "auditLogs pf audits nameParam limitQuery =
     (case decodeURIComponent pf nameParam of
        None \<Rightarrow> internal_error
      | Some decoded \<Rightarrow>
          (let name = trim decoded;
               found = sort_key (\<lambda>e. - int (createdAt e))
                         (filter (\<lambda>e. regex_test_i pf (exactNameRegex name) (pokemonName e)) audits)
           in case auditLimit limitQuery of
                Finite n \<Rightarrow> \<lparr>status = 200, payload = Logs (take (nat n) found)\<rparr>
              | NaN \<Rightarrow>
                  (case limitNaN pf found of
                     Inl e \<Rightarrow> internal_error
                   | Inr logs \<Rightarrow> \<lparr>status = 200, payload = Logs logs\<rparr>)))"

subsection \<open>Creating\<close>

text \<open>
  \<^verbatim>\<open>app.post('/pokemonCreate', ...)\<close>. The request is its parsed JSON body, and the
  protocol and host from which the public URL of the image is built. The handler
  changes the record store and the directory of image files.
\<close>

record create_request =
  body :: jsval
  protocol :: jsstring
  host :: "jsstring option"

record world =
  store :: "pokemon list"
  assets :: "(jsstring \<times> nat list) list"

text \<open>The four checks of the body; the result is the message of the 400 response.\<close>

definition validateCreate :: "jsval \<Rightarrow> jsval \<Rightarrow> jsval \<Rightarrow> jsval \<Rightarrow> jsstring option" where
  "validateCreate nameV typeV baseV imageUrlV =
     (if \<not> truthy (ownProp nameV (ascii ''english'')) \<or> \<not> truthy (ownProp nameV (ascii ''french''))
      then Some (ascii ''name.english and name.french are required'')
      else if \<not> isArray typeV \<or> length (array_elems typeV) = 0
      then Some (ascii ''type must be a non-empty array'')
      else if \<not> truthy baseV \<or> \<not> typeof_object baseV
      then Some (ascii ''base stats are required'')
      else if \<not> truthy imageUrlV \<or> \<not> typeof_string imageUrlV
      then Some (ascii ''imageUrl is required'')
      else None)"

text \<open>\<^verbatim>\<open>function buildPublicAssetUrl(req, fileName)\<close>\<close>

definition buildPublicAssetUrl :: "create_request \<Rightarrow> jsstring \<Rightarrow> jsstring" where
  "buildPublicAssetUrl req fileName =
     protocol req @ ascii ''://''
     @ (case host req of None \<Rightarrow> ascii ''undefined'' | Some h \<Rightarrow> h)
     @ ascii ''/assets/pokemons/'' @ fileName"

text \<open>
  \<^verbatim>\<open>const newId = (latestPokemon?.id || 0) + 1\<close>: the sum is a sum of doubles.
\<close>

definition nextId :: "pokemon list \<Rightarrow> int" where
  "nextId st =
     js_plus_one
       (case latestById st of
          None \<Rightarrow> 0
        | Some latestPokemon \<Rightarrow> if pokemon_id latestPokemon = 0 then 0 else pokemon_id latestPokemon)"

text \<open>The \<^verbatim>\<open>catch\<close> of the create handler.\<close>

definition caught :: "jserror \<Rightarrow> http_response" where
  "caught e = \<lparr>status = 500, payload = ErrorOf e\<rparr>"

definition already_exists :: http_response where
  "already_exists =
     \<lparr>status = 409, payload = ErrorReply (ascii ''Pokemon already exists (english or french name)'')\<rparr>"

text \<open>
  The create handler after the duplicate check: the next identifier, the download,
  the image file, the new record. The store accepts the record, and the file is
  written.
\<close>

definition persistCreate ::
  "platform \<Rightarrow> world \<Rightarrow> create_request \<Rightarrow> jsstring \<Rightarrow> jsstring \<Rightarrow> jsval list \<Rightarrow> jsval \<Rightarrow> jsstring
   \<Rightarrow> http_response \<times> world" where
  "persistCreate pf w req e f tys baseV url =
     (let newId = nextId (store w) in
      case downloadPokemonImage pf url of
        Inl err \<Rightarrow> (caught err, w)
      | Inr imageData \<Rightarrow>
          (let imageExt = getImageExtension pf (snd imageData) url;
               imageFileName = js_number_string (numberToString pf) newId @ imageExt;
               w1 = w\<lparr>assets := assets w @ [(imageFileName, fst imageData)]\<rparr>;
               newPokemon = \<lparr>pokemon_id = newId, name_english = e, name_french = f, types = tys,
                               base = baseV, image_url = buildPublicAssetUrl req imageFileName\<rparr>;
               w2 = w1\<lparr>store := store w1 @ [newPokemon]\<rparr>
           in case withIntegrityHash pf newPokemon of
                Inl err \<Rightarrow> (caught err, w2)
              | Inr s \<Rightarrow> (\<lparr>status = 201, payload = Single s\<rparr>, w2)))"

definition pokemonCreate :: "platform \<Rightarrow> world \<Rightarrow> create_request \<Rightarrow> http_response \<times> world" where
  "pokemonCreate pf w req =
     (if body req = JUndefined \<or> body req = JNull then (caught TypeError, w)
      else
        (let nameV = ownProp (body req) (ascii ''name'');
             typeV = ownProp (body req) (ascii ''type'');
             baseV = ownProp (body req) (ascii ''base'');
             imageUrlV = ownProp (body req) (ascii ''imageUrl'')
         in case validateCreate nameV typeV baseV imageUrlV of
              Some msg \<Rightarrow> (\<lparr>status = 400, payload = ErrorReply msg\<rparr>, w)
            | None \<Rightarrow>
                (case string_of (ownProp nameV (ascii ''english'')) of
                   None \<Rightarrow> (caught TypeError, w)
                 | Some e \<Rightarrow>
                     (case string_of (ownProp nameV (ascii ''french'')) of
                        None \<Rightarrow> (caught TypeError, w)
                      | Some f \<Rightarrow>
                          (case findDuplicate pf (store w) e f of
                             Some duplicate \<Rightarrow> (already_exists, w)
                           | None \<Rightarrow>
                               (case string_of imageUrlV of
                                  None \<Rightarrow> (caught TypeError, w)
                                | Some url \<Rightarrow>
                                    persistCreate pf w req e f (array_elems typeV) baseV url))))))"

section \<open>The specification's notions\<close>

text \<open>
  A comparator orders a set of keys strictly when it is total and transitive on it
  and separates any two different keys.
\<close>

definition orders_strictly :: "('a \<Rightarrow> 'a \<Rightarrow> int) \<Rightarrow> 'a set \<Rightarrow> bool" where
  "orders_strictly cmp A =
     ((\<forall>a\<in>A. \<forall>b\<in>A. cmp a b \<le> 0 \<or> cmp b a \<le> 0)
      \<and> (\<forall>a\<in>A. \<forall>b\<in>A. cmp a b \<le> 0 \<and> cmp b a \<le> 0 \<longrightarrow> a = b)
      \<and> (\<forall>a\<in>A. \<forall>b\<in>A. \<forall>c\<in>A. cmp a b \<le> 0 \<and> cmp b c \<le> 0 \<longrightarrow> cmp a c \<le> 0))"

text \<open>
  A base-stat mapping gives each stat name an integer; \<open>stats_object m\<close> is the object
  that holds the pairs of \<open>m\<close>, inserted in the order of the list.
\<close>

definition stats_object :: "(jsstring \<times> int) list \<Rightarrow> jsval" where
  "stats_object m = JObj (map (\<lambda>p. (fst p, JNum (snd p))) m)"

text \<open>
  The reference definition of the seal, in the words of the specification. The pairs
  of the mapping are sorted lexicographically by key (the order of lists of code units, which
  compares the first code units that differ and puts a proper prefix first), the
  ordered pairs are written as one JSON object, and that text is hashed with the
  secret.
\<close>

definition sort_pairs_by_key :: "(jsstring \<times> int) list \<Rightarrow> (jsstring \<times> int) list" where
  "sort_pairs_by_key m = sort_key fst m"

text \<open>
  The collation agrees with the lexicographic order on a set of keys.
\<close>

definition agrees_with_lexicographic :: "(jsstring \<Rightarrow> jsstring \<Rightarrow> int) \<Rightarrow> jsstring set \<Rightarrow> bool" where
  "agrees_with_lexicographic cmp A = (\<forall>a\<in>A. \<forall>b\<in>A. (cmp a b \<le> 0) = (a \<le> b))"

definition canonical_text :: "(int \<Rightarrow> jsstring) \<Rightarrow> (jsstring \<times> int) list \<Rightarrow> jsstring" where
  "canonical_text nts ps =
     [123] @ join_comma (map (\<lambda>p. json_quote (fst p) @ [58] @ js_number_string nts (snd p)) ps) @ [125]"

definition reference_seal :: "platform \<Rightarrow> (jsstring \<times> int) list \<Rightarrow> jsstring \<Rightarrow> jsstring" where
  "reference_seal pf m secret =
     hmacSha256Hex pf secret (canonical_text (numberToString pf) (sort_pairs_by_key m))"

text \<open>Two names match case-insensitively and exactly: equal after case folding.\<close>

definition ci_equal :: "platform \<Rightarrow> jsstring \<Rightarrow> jsstring \<Rightarrow> bool" where
  "ci_equal pf a b = (map (caseFold pf) a = map (caseFold pf) b)"

text \<open>\<open>q\<close> is a substring of \<open>s\<close>.\<close>

definition substring_of :: "jsstring \<Rightarrow> jsstring \<Rightarrow> bool" where
  "substring_of q s = (\<exists>before after. s = before @ q @ after)"

text \<open>The shape of a create body, field by field.\<close>

definition falsy :: "jsval \<Rightarrow> bool" where
  "falsy v = (v = JUndefined \<or> v = JNull \<or> v = JBool False \<or> v = JNum 0 \<or> v = JStr [])"

definition nonempty_array :: "jsval \<Rightarrow> bool" where
  "nonempty_array v = (case v of JArr xs \<Rightarrow> xs \<noteq> [] | _ \<Rightarrow> False)"

definition object_or_array :: "jsval \<Rightarrow> bool" where
  "object_or_array v = (case v of JArr xs \<Rightarrow> True | JObj kvs \<Rightarrow> True | _ \<Rightarrow> False)"

definition nonempty_string :: "jsval \<Rightarrow> bool" where
  "nonempty_string v = (case v of JStr s \<Rightarrow> s \<noteq> [] | _ \<Rightarrow> False)"

text \<open>
  The fields of a create body, and the bodies that pass the validation of the shape.
\<close>

definition body_english :: "create_request \<Rightarrow> jsval" where
  "body_english req = ownProp (ownProp (body req) (ascii ''name'')) (ascii ''english'')"

definition body_french :: "create_request \<Rightarrow> jsval" where
  "body_french req = ownProp (ownProp (body req) (ascii ''name'')) (ascii ''french'')"

definition body_type :: "create_request \<Rightarrow> jsval" where
  "body_type req = ownProp (body req) (ascii ''type'')"

definition body_base :: "create_request \<Rightarrow> jsval" where
  "body_base req = ownProp (body req) (ascii ''base'')"

definition body_imageUrl :: "create_request \<Rightarrow> jsval" where
  "body_imageUrl req = ownProp (body req) (ascii ''imageUrl'')"

definition well_shaped :: "create_request \<Rightarrow> bool" where
  "well_shaped req =
     (body req \<noteq> JUndefined \<and> body req \<noteq> JNull
      \<and> \<not> falsy (body_english req) \<and> \<not> falsy (body_french req)
      \<and> nonempty_array (body_type req) \<and> object_or_array (body_base req)
      \<and> nonempty_string (body_imageUrl req))"

text \<open>The seal of the empty mapping under the configured secret.\<close>

definition empty_seal :: "platform \<Rightarrow> jsstring" where
  "empty_seal pf = hmacSha256Hex pf (INTEGRITY_SECRET pf) (ascii ''{}'')"

text \<open>
  A record is a hit of a search when the normalised query is a substring of its
  normalised english name or of its normalised french name.
\<close>

definition search_hit :: "platform \<Rightarrow> jsstring \<Rightarrow> pokemon \<Rightarrow> bool" where
  "search_hit pf normalizedQuery p =
     (substring_of normalizedQuery (normalizeForSearch pf (name_english p))
      \<or> substring_of normalizedQuery (normalizeForSearch pf (name_french p)))"

section \<open>A sample runtime\<close>

text \<open>
  A runtime on which the definitions can be run: strings are compared code unit by
  code unit, case mapping and folding act on the ASCII letters, decomposition knows
  the two letters of the example of the search and the letter \<open>U+00E9\<close>, the keyed
  digest keeps its key and its text readable (it is no hash, but like one it gives
  different texts different digests), no URL is unwrapped, the network knows one image
  and one page, and a number beyond \<open>2 ^ 53\<close> prints as its decimal numeral (as the
  doubles do up to \<open>2 ^ 54\<close>), except \<open>10 ^ 21\<close>, which prints as \<^verbatim>\<open>1e+21\<close>.
\<close>

fun ordinal_compare :: "jsstring \<Rightarrow> jsstring \<Rightarrow> int" where
  "ordinal_compare [] [] = 0"
| "ordinal_compare [] (y # ys) = - 1"
| "ordinal_compare (x # xs) [] = 1"
| "ordinal_compare (x # xs) (y # ys) =
     (if x < y then - 1 else if y < x then 1 else ordinal_compare xs ys)"

definition ascii_lower :: "nat \<Rightarrow> nat" where
  "ascii_lower c = (if 65 \<le> c \<and> c \<le> 90 then c + 32 else c)"

definition sample_decompose :: "nat \<Rightarrow> jsstring" where
  "sample_decompose c =
     (if c = 239 then [105, 776]
      else if c = 257 then [97, 772]
      else if c = 233 then [101, 769]
      else [c])"

definition sample_number_text :: "int \<Rightarrow> jsstring" where
  "sample_number_text n =
     (if n = 1000000000000000000000 then ascii ''1e+21''
      else if n < 0 then 45 # dec_digits (nat (- n))
      else dec_digits (nat n))"

definition readable_digest :: "jsstring \<Rightarrow> jsstring \<Rightarrow> jsstring" where
  "readable_digest key text = ascii ''hmac('' @ key @ ascii '','' @ text @ ascii '')''"

definition sample_fetch :: "jsstring \<Rightarrow> fetch_result" where
  "sample_fetch url =
     (if url = ascii ''http://img.test/pika.png'' then Response 200 (Some (ascii ''image/png'')) [137, 80, 78, 71]
      else if url = ascii ''http://img.test/page.html'' then Response 200 (Some (ascii ''text/html'')) [60, 104, 62]
      else Response 404 None [])"

definition sample_platform :: platform where
  "sample_platform =
     \<lparr>localeCompare = ordinal_compare,
      normalizeNFD = (\<lambda>s. concat (map sample_decompose s)),
      toLowerCase = map ascii_lower,
      caseFold = ascii_lower,
      dollarBeforeFinalNewline = True,
      hmacSha256Hex = readable_digest,
      parseURL = (\<lambda>u. None),
      decodeURIComponent = Some,
      pathExtname = (\<lambda>p. []),
      fetch = sample_fetch,
      limitNaN = (\<lambda>logs. Inl StoreError),
      numberToString = sample_number_text,
      envIntegritySecret = None\<rparr>"

text \<open>
  The same runtime with a collation in the manner of \<^verbatim>\<open>localeCompare\<close>: it compares the
  canonical decompositions of the two strings without regard to case and, when that
  does not separate them, puts lower case before upper case. As \<^verbatim>\<open>localeCompare\<close> does,
  it answers 0 on two canonically equivalent strings (\<open>U+00E9\<close> and \<open>e\<close> followed by
  \<open>U+0301\<close>) and puts \<open>a\<close> before \<open>B\<close>.
\<close>

definition locale_like_compare :: "jsstring \<Rightarrow> jsstring \<Rightarrow> int" where
  "locale_like_compare a b =
     (let da = concat (map sample_decompose a);
          db = concat (map sample_decompose b);
          c = ordinal_compare (map ascii_lower da) (map ascii_lower db)
      in if c \<noteq> 0 then c else ordinal_compare db da)"

definition locale_platform :: platform where
  "locale_platform = sample_platform\<lparr>localeCompare := locale_like_compare\<rparr>"

definition sample_body :: "jsval \<Rightarrow> jsval \<Rightarrow> jsstring \<Rightarrow> jsval" where
  "sample_body english french url =
     JObj [(ascii ''name'', JObj [(ascii ''english'', english), (ascii ''french'', french)]),
           (ascii ''type'', JArr [JStr (ascii ''Electric'')]),
           (ascii ''base'', JObj [(ascii ''HP'', JNum 35), (ascii ''Attack'', JNum 55)]),
           (ascii ''imageUrl'', JStr url)]"

definition sample_request :: "jsval \<Rightarrow> jsval \<Rightarrow> jsstring \<Rightarrow> create_request" where
  "sample_request english french url =
     \<lparr>body = sample_body english french url, protocol = ascii ''http'', host = Some (ascii ''localhost:3000'')\<rparr>"

definition sample_pokemon :: "int \<Rightarrow> jsstring \<Rightarrow> jsstring \<Rightarrow> jsval \<Rightarrow> pokemon" where
  "sample_pokemon i english french stats =
     \<lparr>pokemon_id = i, name_english = english, name_french = french,
      types = [JStr (ascii ''Electric'')], base = stats, image_url = ascii ''http://localhost:3000/assets/pokemons/1.png''\<rparr>"

text \<open>
  Sample data: a world whose store holds one record named Pika, without a \<open>base\<close>
  field, the same world with \<open>2 ^ 53\<close> for the id of the record, and a store of two
  records, the second with a french name that writes
  Pikachu with the letters \<open>U+00EF\<close> and \<open>U+0101\<close>.
\<close>

definition sample_world :: world where
  "sample_world = \<lparr>store = [sample_pokemon 7 (ascii ''Pika'') (ascii ''Pika'') JUndefined], assets = []\<rparr>"

definition large_id_world :: world where
  "large_id_world =
     \<lparr>store = [sample_pokemon 9007199254740992 (ascii ''Pika'') (ascii ''Pika'') JUndefined],
      assets = []\<rparr>"

definition empty_world :: world where
  "empty_world = \<lparr>store = [], assets = []\<rparr>"

definition image_link :: jsstring where
  "image_link = ascii ''http://img.test/pika.png''"

definition page_link :: jsstring where
  "page_link = ascii ''http://img.test/page.html''"

definition sample_store :: "pokemon list" where
  "sample_store =
     [sample_pokemon 1 (ascii ''Bulbasaur'') (ascii ''Bulbizarre'') JUndefined,
      sample_pokemon 25 (ascii ''Pichu'') [80, 239, 107, 257, 99, 104, 117] JUndefined]"

section \<open>Properties of the sort\<close>

lemma set_insert_cmp: "set (insert_cmp cmp x ys) = insert x (set ys)"
  by (induction ys) auto

lemma set_js_sort: "set (js_sort cmp xs) = set xs"
  by (induction xs) (simp_all add: js_sort_def set_insert_cmp)

lemma distinct_insert_cmp: "distinct (insert_cmp cmp x ys) = (x \<notin> set ys \<and> distinct ys)"
  by (induction ys) (auto simp: set_insert_cmp)

lemma distinct_js_sort: "distinct (js_sort cmp xs) = distinct xs"
  by (induction xs) (simp_all add: js_sort_def distinct_insert_cmp set_js_sort [unfolded js_sort_def])

lemma sorted_insert_cmp:
  assumes "orders_strictly cmp A" and "x \<in> A" and "set ys \<subseteq> A"
    and "sorted_wrt (\<lambda>a b. cmp a b \<le> 0) ys"
  shows "sorted_wrt (\<lambda>a b. cmp a b \<le> 0) (insert_cmp cmp x ys)"
  using assms(3,4)
proof (induction ys)
  case Nil
  then show ?case by simp
next
  case (Cons y ys)
  show ?case
  proof (cases "cmp x y \<le> 0")
    case True
    have "cmp x z \<le> 0" if "z \<in> set ys" for z
    proof -
      have "cmp y z \<le> 0" using Cons.prems(2) that by simp
      moreover have "y \<in> A" "z \<in> A" using Cons.prems(1) that by auto
      ultimately show ?thesis
        using assms(1,2) True unfolding orders_strictly_def by blast
    qed
    with True Cons.prems(2) show ?thesis by simp
  next
    case False
    have "y \<in> A" using Cons.prems(1) by simp
    with False assms(1,2) have yx: "cmp y x \<le> 0"
      unfolding orders_strictly_def by blast
    have "sorted_wrt (\<lambda>a b. cmp a b \<le> 0) (insert_cmp cmp x ys)"
      using Cons by simp
    with False yx Cons.prems(2) show ?thesis
      by (auto simp: set_insert_cmp)
  qed
qed

lemma sorted_js_sort:
  assumes "orders_strictly cmp A" and "set xs \<subseteq> A"
  shows "sorted_wrt (\<lambda>a b. cmp a b \<le> 0) (js_sort cmp xs)"
  using assms(2)
proof (induction xs)
  case Nil
  then show ?case by (simp add: js_sort_def)
next
  case (Cons x xs)
  then have "sorted_wrt (\<lambda>a b. cmp a b \<le> 0) (js_sort cmp xs)" by simp
  moreover have "set (js_sort cmp xs) \<subseteq> A" using Cons.prems by (simp add: set_js_sort)
  moreover have "x \<in> A" using Cons.prems by simp
  ultimately have "sorted_wrt (\<lambda>a b. cmp a b \<le> 0) (insert_cmp cmp x (js_sort cmp xs))"
    using assms(1) by (intro sorted_insert_cmp)
  then show ?case by (simp add: js_sort_def)
qed

lemma sorted_distinct_unique:
  assumes "orders_strictly cmp A"
  shows "sorted_wrt (\<lambda>a b. cmp a b \<le> 0) xs \<Longrightarrow> sorted_wrt (\<lambda>a b. cmp a b \<le> 0) ys
    \<Longrightarrow> distinct xs \<Longrightarrow> distinct ys \<Longrightarrow> set xs = set ys \<Longrightarrow> set xs \<subseteq> A \<Longrightarrow> xs = ys"
proof (induction xs arbitrary: ys)
  case Nil
  then show ?case by simp
next
  case (Cons x xs)
  then obtain y ys' where ys: "ys = y # ys'" by (cases ys) auto
  have xy: "x = y"
  proof (rule ccontr)
    assume ne: "x \<noteq> y"
    with Cons.prems(5) ys have "x \<in> set ys'" "y \<in> set xs" by auto
    with Cons.prems(1,2) ys have "cmp y x \<le> 0" "cmp x y \<le> 0" by auto
    moreover have "x \<in> A" "y \<in> A" using Cons.prems(5,6) ys by auto
    ultimately show False using assms ne unfolding orders_strictly_def by blast
  qed
  have "set xs = set ys'" using Cons.prems(3,4,5) ys xy by auto
  with Cons ys xy show ?case by auto
qed


section \<open>Properties of the sealer\<close>

lemma stringify_object_some: "\<exists>text. stringify nts (JObj kvs) = Some text"
  by simp





lemmas seal_defs = withIntegrityHash_def generateIntegritySeal_def sealPayload_def sortedStats_def
  js_sort_def js_set_def proto_key_def is_array_index_def is_digit_def digits_value_def
  INTEGRITY_SECRET_def json_quote_def json_unit_def js_number_string_def dec_digits.simps
  high_surrogate_def low_surrogate_def readable_digest_def



lemma foldl_js_set_append:
  assumes "distinct ks" and "\<forall>k\<in>set ks. \<not> is_array_index k \<and> k \<noteq> proto_key"
    and "set ks \<inter> set (map fst acc) = {}"
  shows "foldl (\<lambda>acc key. js_set acc key (f key)) acc ks = acc @ map (\<lambda>k. (k, f k)) ks"
  using assms
proof (induction ks arbitrary: acc)
  case Nil
  then show ?case by simp
next
  case (Cons k ks)
  have step: "js_set acc k (f k) = acc @ [(k, f k)]"
    using Cons.prems by (auto simp: js_set_def)
  have "foldl (\<lambda>acc key. js_set acc key (f key)) (acc @ [(k, f k)]) ks
        = (acc @ [(k, f k)]) @ map (\<lambda>k. (k, f k)) ks"
    using Cons.prems by (intro Cons.IH) auto
  with step show ?case by simp
qed

lemma stringify_props_stats:
  "stringify_props nts (map (\<lambda>p. (fst p, JNum (snd p))) ps)
   = map (\<lambda>p. json_quote (fst p) @ [58] @ js_number_string nts (snd p)) ps"
  by (induction ps) simp_all

lemma agrees_orders_strictly:
  assumes "agrees_with_lexicographic cmp A"
  shows "orders_strictly cmp A"
  using assms unfolding agrees_with_lexicographic_def orders_strictly_def
  by (auto intro: order_trans)

text \<open>
  C2 (as amended). For every base-stat mapping none of whose keys is an array index or
  \<^verbatim>\<open>__proto__\<close>, and on whose keys the collation agrees with the lexicographic order, the
  seal is the reference definition: the pairs sorted lexicographically by key, written
  in that order as one JSON object, hashed with the secret.
\<close>

theorem seal_equals_reference:
  assumes "distinct (map fst m)"
    and "\<forall>k\<in>set (map fst m). \<not> is_array_index k \<and> k \<noteq> proto_key"
    and "agrees_with_lexicographic (localeCompare pf) (set (map fst m))"
  shows "generateIntegritySeal pf (stats_object m) secret = Inr (reference_seal pf m secret)"
proof -
  let ?cmp = "localeCompare pf"
  let ?ps = "sort_pairs_by_key m"
  let ?obj = "stats_object m"
  have ord: "orders_strictly ?cmp (set (map fst m))"
    using assms(3) by (rule agrees_orders_strictly)
  have set_ps: "set ?ps = set m" by (simp add: sort_pairs_by_key_def)
  have dm: "distinct m" and inj: "inj_on fst (set m)"
    using assms(1) by (simp_all add: distinct_map)
  have dist: "distinct (map fst ?ps)"
    using dm inj by (simp add: distinct_map sort_pairs_by_key_def)
  have "sorted (map fst ?ps)" by (simp add: sort_pairs_by_key_def)
  then have sorted_ps: "sorted_wrt (\<lambda>a b. ?cmp a b \<le> 0) (map fst ?ps)"
  proof (rule sorted_wrt_mono_rel [rotated])
    fix a b
    assume "a \<in> set (map fst ?ps)" and "b \<in> set (map fst ?ps)" and "a \<le> b"
    then show "?cmp a b \<le> 0"
      using assms(3) set_ps unfolding agrees_with_lexicographic_def by auto
  qed
  have ks: "js_sort ?cmp (map fst m) = map fst ?ps"
  proof (rule sorted_distinct_unique [OF ord])
    show "sorted_wrt (\<lambda>a b. ?cmp a b \<le> 0) (js_sort ?cmp (map fst m))"
      using ord by (rule sorted_js_sort) simp
    show "sorted_wrt (\<lambda>a b. ?cmp a b \<le> 0) (map fst ?ps)" by (rule sorted_ps)
    show "distinct (js_sort ?cmp (map fst m))" using assms(1) by (simp add: distinct_js_sort)
    show "distinct (map fst ?ps)" by (rule dist)
    show "set (js_sort ?cmp (map fst m)) = set (map fst ?ps)"
      using set_ps by (simp add: set_js_sort)
    show "set (js_sort ?cmp (map fst m)) \<subseteq> set (map fst m)" by (simp add: set_js_sort)
  qed
  have plain: "\<forall>k\<in>set (map fst ?ps). \<not> is_array_index k \<and> k \<noteq> proto_key"
    using assms(2) set_ps by simp
  have look: "ownProp ?obj (fst p) = JNum (snd p)" if "p \<in> set ?ps" for p
  proof -
    have "p \<in> set m" using that set_ps by simp
    then have "(fst p, JNum (snd p)) \<in> set (map (\<lambda>p. (fst p, JNum (snd p))) m)" by force
    moreover have "distinct (map fst (map (\<lambda>p. (fst p, JNum (snd p))) m))"
      using assms(1) by (simp add: comp_def)
    ultimately have "map_of (map (\<lambda>p. (fst p, JNum (snd p))) m) (fst p) = Some (JNum (snd p))"
      by (rule map_of_is_SomeI [rotated])
    then show ?thesis by (simp add: stats_object_def)
  qed
  have "sortedStats pf ?obj (map fst m) = [] @ map (\<lambda>k. (k, ownProp ?obj k)) (map fst ?ps)"
    unfolding sortedStats_def ks using dist plain by (intro foldl_js_set_append) simp_all
  also have "\<dots> = map (\<lambda>p. (fst p, JNum (snd p))) ?ps"
    using look by (simp add: comp_def)
  finally have "sortedStats pf ?obj (map fst m) = map (\<lambda>p. (fst p, JNum (snd p))) ?ps" .
  moreover have "objectKeys ?obj = Inr (map fst m)"
    by (simp add: stats_object_def comp_def)
  moreover have "?obj \<noteq> JUndefined" by (simp add: stats_object_def)
  ultimately show ?thesis
    by (simp add: generateIntegritySeal_def sealPayload_def reference_seal_def canonical_text_def
        stringify_props_stats)
qed

text \<open>Unfolding sets for running the definitions on the sample runtime.\<close>

lemmas body_defs = sample_request_def sample_body_def body_english_def body_french_def body_type_def
  body_base_def body_imageUrl_def well_shaped_def falsy_def nonempty_array_def object_or_array_def
  nonempty_string_def

lemmas regex_defs = findDuplicate_def regex_test_i_def anchored_literal_def exactNameRegex_def
  escapeRegExp_def regex_special_def is_alnum_def is_digit_def ascii_lower_def

lemmas create_defs = pokemonCreate_def persistCreate_def validateCreate_def downloadPokemonImage_def
  resolveDownloadUrl_def response_ok_def header_or_empty_def getImageExtension_def contentTypeMap_def
  buildPublicAssetUrl_def nextId_def js_plus_one_def round_double_def caught_def already_exists_def
  sample_fetch_def Let_def

lemmas sample_defs = sample_request_def sample_body_def sample_world_def empty_world_def
  sample_pokemon_def sample_platform_def image_link_def page_link_def ascii_def

lemmas search_defs = pokemonsSearch_def searchMatches_def normalizeForSearch_def trim_def
  js_whitespace_def combining_mark_def sample_decompose_def ascii_lower_def Let_def

lemma sample_keys_agree:
  "agrees_with_lexicographic (localeCompare sample_platform) (set (map fst [(ascii ''HP'', 35 :: int), (ascii ''Attack'', 55)]))"
  by (simp add: agrees_with_lexicographic_def sample_platform_def ascii_def)

theorem seal_equals_reference_witness:
  "distinct (map fst [(ascii ''HP'', 35 :: int), (ascii ''Attack'', 55)])
   \<and> \<not> is_array_index (ascii ''HP'') \<and> ascii ''HP'' \<noteq> proto_key
   \<and> \<not> is_array_index (ascii ''Attack'') \<and> ascii ''Attack'' \<noteq> proto_key
   \<and> agrees_with_lexicographic (localeCompare sample_platform)
        (set (map fst [(ascii ''HP'', 35 :: int), (ascii ''Attack'', 55)]))
   \<and> generateIntegritySeal sample_platform
        (stats_object [(ascii ''HP'', 35), (ascii ''Attack'', 55)]) (ascii ''s3cret'')
      = Inr (reference_seal sample_platform [(ascii ''HP'', 35), (ascii ''Attack'', 55)] (ascii ''s3cret''))"
proof -
  let ?m = "[(ascii ''HP'', 35 :: int), (ascii ''Attack'', 55)]"
  have d: "distinct (map fst ?m)" by (simp add: ascii_def)
  have n: "\<forall>k\<in>set (map fst ?m). \<not> is_array_index k \<and> k \<noteq> proto_key"
    by (simp add: ascii_def is_array_index_def is_digit_def proto_key_def)
  note a = sample_keys_agree
  from seal_equals_reference [OF d n a, of "ascii ''s3cret''"] d n a
  show ?thesis by simp
qed

text \<open>
  The claim as stated fails in three ways. For the keys \<open>9\<close> and \<open>10\<close> the reference
  writes \<open>10\<close> before \<open>9\<close>; the fresh object of the code enumerates its array indices in
  numeric order, so the text that is hashed has \<open>9\<close> before \<open>10\<close>. For the keys
  \<^verbatim>\<open>__proto__\<close> and \<open>HP\<close> the reference writes both pairs; the assignment of
  \<^verbatim>\<open>__proto__\<close> to the fresh object creates no property, so the text that is hashed
  has \<open>HP\<close> alone. For the keys \<open>a\<close> and \<open>B\<close> the reference writes \<open>B\<close> first, as the
  code unit of \<open>B\<close> is the smaller; the collation puts \<open>a\<close> before \<open>B\<close>, and so does the
  text that is hashed.
\<close>

lemma seal_payload_index_keys:
  "sealPayload sample_platform (stats_object [(ascii ''9'', 2), (ascii ''10'', 1)])
   = Inr (ascii ''{\"9\":2,\"10\":1}'')"
  by (simp add: stats_object_def seal_defs sample_platform_def ascii_def)

lemma canonical_text_index_keys:
  "canonical_text nts (sort_pairs_by_key [(ascii ''9'', 2), (ascii ''10'', 1)])
   = ascii ''{\"10\":1,\"9\":2}''"
  by (simp add: canonical_text_def sort_pairs_by_key_def seal_defs ascii_def)

lemma seal_payload_proto_key:
  "sealPayload sample_platform (stats_object [(ascii ''__proto__'', 5), (ascii ''HP'', 1)])
   = Inr (ascii ''{\"HP\":1}'')"
  by (simp add: stats_object_def seal_defs sample_platform_def ascii_def)

lemma canonical_text_proto_key:
  "canonical_text nts (sort_pairs_by_key [(ascii ''__proto__'', 5), (ascii ''HP'', 1)])
   = ascii ''{\"HP\":1,\"__proto__\":5}''"
  by (simp add: canonical_text_def sort_pairs_by_key_def seal_defs ascii_def)

lemma seal_payload_mixed_case:
  "sealPayload locale_platform (stats_object [(ascii ''B'', 2), (ascii ''a'', 1)])
   = Inr (ascii ''{\"a\":1,\"B\":2}'')"
  by (simp add: stats_object_def seal_defs locale_platform_def sample_platform_def
      locale_like_compare_def sample_decompose_def ascii_lower_def ascii_def)

lemma canonical_text_mixed_case:
  "canonical_text nts (sort_pairs_by_key [(ascii ''B'', 2), (ascii ''a'', 1)])
   = ascii ''{\"B\":2,\"a\":1}''"
  by (simp add: canonical_text_def sort_pairs_by_key_def seal_defs ascii_def)

theorem seal_equals_reference_counterexample:
  "sealPayload sample_platform (stats_object [(ascii ''9'', 2), (ascii ''10'', 1)])
     = Inr (ascii ''{\"9\":2,\"10\":1}'')
   \<and> canonical_text (numberToString sample_platform)
        (sort_pairs_by_key [(ascii ''9'', 2), (ascii ''10'', 1)])
       = ascii ''{\"10\":1,\"9\":2}''
   \<and> generateIntegritySeal sample_platform (stats_object [(ascii ''9'', 2), (ascii ''10'', 1)])
        (ascii ''s3cret'')
       \<noteq> Inr (reference_seal sample_platform [(ascii ''9'', 2), (ascii ''10'', 1)] (ascii ''s3cret''))
   \<and> sealPayload sample_platform (stats_object [(ascii ''__proto__'', 5), (ascii ''HP'', 1)])
       = Inr (ascii ''{\"HP\":1}'')
   \<and> canonical_text (numberToString sample_platform)
        (sort_pairs_by_key [(ascii ''__proto__'', 5), (ascii ''HP'', 1)])
       = ascii ''{\"HP\":1,\"__proto__\":5}''
   \<and> generateIntegritySeal sample_platform
        (stats_object [(ascii ''__proto__'', 5), (ascii ''HP'', 1)]) (ascii ''s3cret'')
       \<noteq> Inr (reference_seal sample_platform [(ascii ''__proto__'', 5), (ascii ''HP'', 1)]
                (ascii ''s3cret''))
   \<and> sealPayload locale_platform (stats_object [(ascii ''B'', 2), (ascii ''a'', 1)])
       = Inr (ascii ''{\"a\":1,\"B\":2}'')
   \<and> canonical_text (numberToString locale_platform)
        (sort_pairs_by_key [(ascii ''B'', 2), (ascii ''a'', 1)])
       = ascii ''{\"B\":2,\"a\":1}''
   \<and> generateIntegritySeal locale_platform (stats_object [(ascii ''B'', 2), (ascii ''a'', 1)])
        (ascii ''s3cret'')
       \<noteq> Inr (reference_seal locale_platform [(ascii ''B'', 2), (ascii ''a'', 1)] (ascii ''s3cret''))"
proof -
  have "generateIntegritySeal sample_platform
        (stats_object [(ascii ''9'', 2), (ascii ''10'', 1)]) (ascii ''s3cret'')
       \<noteq> Inr (reference_seal sample_platform [(ascii ''9'', 2), (ascii ''10'', 1)] (ascii ''s3cret''))"
    by (simp add: generateIntegritySeal_def reference_seal_def seal_payload_index_keys
        canonical_text_index_keys)
       (simp add: sample_platform_def readable_digest_def ascii_def)
  moreover have "generateIntegritySeal sample_platform
        (stats_object [(ascii ''__proto__'', 5), (ascii ''HP'', 1)]) (ascii ''s3cret'')
       \<noteq> Inr (reference_seal sample_platform [(ascii ''__proto__'', 5), (ascii ''HP'', 1)]
                (ascii ''s3cret''))"
    by (simp add: generateIntegritySeal_def reference_seal_def seal_payload_proto_key
        canonical_text_proto_key)
       (simp add: sample_platform_def readable_digest_def ascii_def)
  moreover have "generateIntegritySeal locale_platform
        (stats_object [(ascii ''B'', 2), (ascii ''a'', 1)]) (ascii ''s3cret'')
       \<noteq> Inr (reference_seal locale_platform [(ascii ''B'', 2), (ascii ''a'', 1)] (ascii ''s3cret''))"
    by (simp add: generateIntegritySeal_def reference_seal_def seal_payload_mixed_case
        canonical_text_mixed_case)
       (simp add: locale_platform_def sample_platform_def readable_digest_def ascii_def)
  ultimately show ?thesis
    using seal_payload_index_keys canonical_text_index_keys seal_payload_proto_key
      canonical_text_proto_key seal_payload_mixed_case canonical_text_mixed_case
    by simp
qed

section \<open>Properties of the sealed representation\<close>

lemma seal_missing_base:
  "generateIntegritySeal pf JUndefined secret = Inr (hmacSha256Hex pf secret (ascii ''{}''))"
  by (simp add: generateIntegritySeal_def sealPayload_def sortedStats_def js_sort_def ascii_def)

lemma seal_empty_object:
  "generateIntegritySeal pf (JObj []) secret = Inr (hmacSha256Hex pf secret (ascii ''{}''))"
  by (simp add: generateIntegritySeal_def sealPayload_def sortedStats_def js_sort_def ascii_def)

lemma with_hash_missing_base:
  assumes "base d = JUndefined"
  shows "withIntegrityHash pf d = Inr \<lparr>doc = d, integrityHash = empty_seal pf\<rparr>"
  using assms by (simp add: withIntegrityHash_def seal_missing_base empty_seal_def)

lemma with_hash_doc: "withIntegrityHash pf d = Inr s \<Longrightarrow> doc s = d"
  by (auto simp: withIntegrityHash_def split: sum.splits)

lemma with_hash_ok: "base d \<noteq> JNull \<Longrightarrow> \<exists>s. withIntegrityHash pf d = Inr s"
  by (cases "base d") (simp_all add: withIntegrityHash_def generateIntegritySeal_def sealPayload_def)

lemma sealAll_members:
  "sealAll pf ds = Inr ss \<Longrightarrow> s \<in> set ss \<Longrightarrow> withIntegrityHash pf (doc s) = Inr s"
proof (induction ds arbitrary: ss)
  case Nil
  then show ?case by simp
next
  case (Cons d ds)
  from Cons.prems(1) obtain s0 ss0 where
    h: "withIntegrityHash pf d = Inr s0" and t: "sealAll pf ds = Inr ss0" and ss: "ss = s0 # ss0"
    by (auto split: sum.splits)
  show ?case
  proof (cases "s = s0")
    case True
    with h with_hash_doc [OF h] show ?thesis by simp
  next
    case False
    with Cons.prems(2) ss have "s \<in> set ss0" by simp
    with t show ?thesis by (rule Cons.IH)
  qed
qed

lemma sealAll_docs: "sealAll pf ds = Inr ss \<Longrightarrow> map doc ss = ds"
  by (induction ds arbitrary: ss) (auto split: sum.splits dest: with_hash_doc)

lemma sealAll_ok: "\<forall>d\<in>set ds. base d \<noteq> JNull \<Longrightarrow> \<exists>ss. sealAll pf ds = Inr ss"
proof (induction ds)
  case Nil
  then show ?case by simp
next
  case (Cons d ds)
  then obtain ss where "sealAll pf ds = Inr ss" by auto
  moreover from Cons.prems obtain s where "withIntegrityHash pf d = Inr s"
    using with_hash_ok [of d pf] by auto
  ultimately show ?case by simp
qed

lemma sealAll_missing_base:
  assumes "sealAll pf ds = Inr ss" and "s \<in> set ss" and "base (doc s) = JUndefined"
  shows "integrityHash s = empty_seal pf"
proof -
  have "withIntegrityHash pf (doc s) = Inr s" using assms(1,2) by (rule sealAll_members)
  with with_hash_missing_base [OF assms(3), of pf]
  have "s = \<lparr>doc = doc s, integrityHash = empty_seal pf\<rparr>" by simp
  then have "integrityHash s = integrityHash \<lparr>doc = doc s, integrityHash = empty_seal pf\<rparr>"
    by (rule arg_cong)
  then show ?thesis by simp
qed

lemma sealAll_all_missing:
  "\<forall>d\<in>set ds. base d = JUndefined \<Longrightarrow>
   sealAll pf ds = Inr (map (\<lambda>d. \<lparr>doc = d, integrityHash = empty_seal pf\<rparr>) ds)"
  by (induction ds) (simp_all add: with_hash_missing_base)

lemma respondOne_missing_base:
  "base d = JUndefined \<Longrightarrow>
   respondOne pf (Some d) = \<lparr>status = 200, payload = Single \<lparr>doc = d, integrityHash = empty_seal pf\<rparr>\<rparr>"
  by (simp add: respondOne_def with_hash_missing_base)

lemma listing_pokemons:
  "pokemons pf st = \<lparr>status = 200, payload = Listing ss\<rparr> \<Longrightarrow> sealAll pf st = Inr ss"
  by (auto simp: pokemons_def internal_error_def split: sum.splits)

lemma listing_page:
  "pokemonsByPage pf st page = \<lparr>status = 200, payload = Listing ss\<rparr> \<Longrightarrow> \<exists>ds. sealAll pf ds = Inr ss"
  by (auto simp: pokemonsByPage_def Let_def split: sum.splits if_splits)

lemma listing_search:
  "pokemonsSearch pf st q = \<lparr>status = 200, payload = Listing ss\<rparr> \<Longrightarrow> \<exists>ds. sealAll pf ds = Inr ss"
proof -
  assume a: "pokemonsSearch pf st q = \<lparr>status = 200, payload = Listing ss\<rparr>"
  show ?thesis
  proof (cases "trim (case q of None \<Rightarrow> [] | Some q \<Rightarrow> q) = []")
    case True
    with a have "ss = []" by (simp add: pokemonsSearch_def)
    then have "sealAll pf [] = Inr ss" by simp
    then show ?thesis by blast
  next
    case False
    with a show ?thesis
      by (auto simp: pokemonsSearch_def Let_def internal_error_def split: sum.splits)
  qed
qed

lemma sealAll_total:
  assumes "\<forall>r\<in>set ds. base r \<noteq> JNull"
  shows "\<exists>ss. sealAll pf ds = Inr ss \<and> map doc ss = ds
              \<and> (\<forall>s\<in>set ss. base (doc s) = JUndefined \<longrightarrow> integrityHash s = empty_seal pf)"
proof -
  from sealAll_ok [OF assms] obtain ss where ss: "sealAll pf ds = Inr ss" by blast
  have "map doc ss = ds" using ss by (rule sealAll_docs)
  moreover have "\<forall>s\<in>set ss. base (doc s) = JUndefined \<longrightarrow> integrityHash s = empty_seal pf"
    using ss by (blast intro: sealAll_missing_base)
  ultimately show ?thesis using ss by blast
qed

lemma single_listing:
  assumes "map doc ss = [d]" and "base d = JUndefined"
    and "\<forall>s\<in>set ss. base (doc s) = JUndefined \<longrightarrow> integrityHash s = h"
  shows "ss = [\<lparr>doc = d, integrityHash = h\<rparr>]"
proof -
  from assms(1) obtain s where ss: "ss = [s]" and d: "doc s = d" by auto
  with assms(2,3) have "integrityHash s = h" by simp
  with d have "s = \<lparr>doc = d, integrityHash = h\<rparr>" by simp
  with ss show ?thesis by simp
qed

text \<open>
  C9. A stored record without a \<open>base\<close> field is still sealed, and its
  \<open>integrityHash\<close> is the seal of the empty mapping. \<open>withIntegrityHash\<close> gives it (and
  does not fail), and the three endpoints of one record answer 200 with it when the
  record is the one they find. The three listings are answered, with status 200, the
  records they select in the order of the store (all of them; the 20 of the page, for
  a page number from 0 whose offset is below \<open>2 ^ 31\<close>; the first 50 matches of a
  query among the first 1000 records), each record without \<open>base\<close> with that hash,
  whenever no stored \<open>base\<close> is \<open>null\<close> (sealing \<open>null\<close> throws, and the listing is then
  answered 500). Every listing that is answered holds the record with that hash, and
  the list of a store in which every record lacks \<open>base\<close> is answered in full.
\<close>

theorem missing_base_sealed_as_empty:
  assumes "base d = JUndefined"
  shows "generateIntegritySeal pf (JObj []) (INTEGRITY_SECRET pf) = Inr (empty_seal pf)
    \<and> withIntegrityHash pf d = Inr \<lparr>doc = d, integrityHash = empty_seal pf\<rparr>
    \<and> (findOneById st (parseInt10 idParam) = Inr (Some d) \<longrightarrow>
         getPokemonById pf st idParam
         = \<lparr>status = 200, payload = Single \<lparr>doc = d, integrityHash = empty_seal pf\<rparr>\<rparr>)
    \<and> (find (\<lambda>p. name_english p = n) st = Some d \<longrightarrow>
         getPokemonByName pf st n
         = \<lparr>status = 200, payload = Single \<lparr>doc = d, integrityHash = empty_seal pf\<rparr>\<rparr>)
    \<and> (trim n \<noteq> [] \<and> findDuplicate pf st (trim n) (trim n) = Some d \<longrightarrow>
         getPokemonExactByName pf st n
         = \<lparr>status = 200, payload = Single \<lparr>doc = d, integrityHash = empty_seal pf\<rparr>\<rparr>)
    \<and> ((\<forall>r\<in>set st. base r \<noteq> JNull) \<longrightarrow>
         (\<exists>ss. pokemons pf st = \<lparr>status = 200, payload = Listing ss\<rparr>
               \<and> map doc ss = st
               \<and> (\<forall>s\<in>set ss. base (doc s) = JUndefined \<longrightarrow> integrityHash s = empty_seal pf)))
    \<and> ((\<forall>r\<in>set st. base r \<noteq> JNull) \<and> 0 \<le> pageNumber page
          \<and> 20 * pageNumber page < 2147483648 \<longrightarrow>
         (\<exists>ss. pokemonsByPage pf st page = \<lparr>status = 200, payload = Listing ss\<rparr>
               \<and> map doc ss = take 20 (drop (20 * nat (pageNumber page)) st)
               \<and> (\<forall>s\<in>set ss. base (doc s) = JUndefined \<longrightarrow> integrityHash s = empty_seal pf)))
    \<and> ((\<forall>r\<in>set st. base r \<noteq> JNull) \<and> trim query \<noteq> [] \<longrightarrow>
         (\<exists>ss. pokemonsSearch pf st (Some query) = \<lparr>status = 200, payload = Listing ss\<rparr>
               \<and> map doc ss
                  = take 50 (filter (searchMatches pf (normalizeForSearch pf (trim query)))
                               (take 1000 st))
               \<and> (\<forall>s\<in>set ss. base (doc s) = JUndefined \<longrightarrow> integrityHash s = empty_seal pf)))
    \<and> (\<forall>ss. (pokemons pf st = \<lparr>status = 200, payload = Listing ss\<rparr>
              \<or> pokemonsByPage pf st page = \<lparr>status = 200, payload = Listing ss\<rparr>
              \<or> pokemonsSearch pf st q = \<lparr>status = 200, payload = Listing ss\<rparr>) \<longrightarrow>
             (\<forall>s\<in>set ss. doc s = d \<longrightarrow> integrityHash s = empty_seal pf))
    \<and> ((\<forall>r\<in>set st. base r = JUndefined) \<longrightarrow>
         pokemons pf st
         = \<lparr>status = 200, payload = Listing (map (\<lambda>r. \<lparr>doc = r, integrityHash = empty_seal pf\<rparr>) st)\<rparr>)"
proof (intro conjI impI allI ballI)
  show "generateIntegritySeal pf (JObj []) (INTEGRITY_SECRET pf) = Inr (empty_seal pf)"
    by (simp add: seal_empty_object empty_seal_def)
  show "withIntegrityHash pf d = Inr \<lparr>doc = d, integrityHash = empty_seal pf\<rparr>"
    using assms by (rule with_hash_missing_base)
  show "getPokemonById pf st idParam
        = \<lparr>status = 200, payload = Single \<lparr>doc = d, integrityHash = empty_seal pf\<rparr>\<rparr>"
    if "findOneById st (parseInt10 idParam) = Inr (Some d)"
    using that assms by (simp add: getPokemonById_def respondOne_missing_base)
  show "getPokemonByName pf st n
        = \<lparr>status = 200, payload = Single \<lparr>doc = d, integrityHash = empty_seal pf\<rparr>\<rparr>"
    if "find (\<lambda>p. name_english p = n) st = Some d"
    using that assms by (simp add: getPokemonByName_def respondOne_missing_base)
  show "getPokemonExactByName pf st n
        = \<lparr>status = 200, payload = Single \<lparr>doc = d, integrityHash = empty_seal pf\<rparr>\<rparr>"
    if "trim n \<noteq> [] \<and> findDuplicate pf st (trim n) (trim n) = Some d"
    using that assms by (simp add: getPokemonExactByName_def respondOne_missing_base)
  show "\<exists>ss. pokemons pf st = \<lparr>status = 200, payload = Listing ss\<rparr>
             \<and> map doc ss = st
             \<and> (\<forall>s\<in>set ss. base (doc s) = JUndefined \<longrightarrow> integrityHash s = empty_seal pf)"
    if "\<forall>r\<in>set st. base r \<noteq> JNull"
  proof -
    from sealAll_total [OF that, of pf] obtain ss where "sealAll pf st = Inr ss"
      and "map doc ss = st"
      and "\<forall>s\<in>set ss. base (doc s) = JUndefined \<longrightarrow> integrityHash s = empty_seal pf"
      by blast
    then show ?thesis by (simp add: pokemons_def)
  qed
  show "\<exists>ss. pokemonsByPage pf st page = \<lparr>status = 200, payload = Listing ss\<rparr>
             \<and> map doc ss = take 20 (drop (20 * nat (pageNumber page)) st)
             \<and> (\<forall>s\<in>set ss. base (doc s) = JUndefined \<longrightarrow> integrityHash s = empty_seal pf)"
    if h: "(\<forall>r\<in>set st. base r \<noteq> JNull) \<and> 0 \<le> pageNumber page
           \<and> 20 * pageNumber page < 2147483648"
  proof -
    let ?ds = "take 20 (drop (20 * nat (pageNumber page)) st)"
    have "set ?ds \<subseteq> set st"
      by (meson set_take_subset set_drop_subset subset_trans)
    with h have "\<forall>r\<in>set ?ds. base r \<noteq> JNull" by blast
    from sealAll_total [OF this, of pf] obtain ss where "sealAll pf ?ds = Inr ss"
      and "map doc ss = ?ds"
      and "\<forall>s\<in>set ss. base (doc s) = JUndefined \<longrightarrow> integrityHash s = empty_seal pf"
      by blast
    with h show ?thesis by (simp add: pokemonsByPage_def)
  qed
  show "\<exists>ss. pokemonsSearch pf st (Some query) = \<lparr>status = 200, payload = Listing ss\<rparr>
             \<and> map doc ss
                = take 50 (filter (searchMatches pf (normalizeForSearch pf (trim query)))
                             (take 1000 st))
             \<and> (\<forall>s\<in>set ss. base (doc s) = JUndefined \<longrightarrow> integrityHash s = empty_seal pf)"
    if h: "(\<forall>r\<in>set st. base r \<noteq> JNull) \<and> trim query \<noteq> []"
  proof -
    let ?ds = "take 50 (filter (searchMatches pf (normalizeForSearch pf (trim query))) (take 1000 st))"
    have "set ?ds \<subseteq> set st"
      by (meson set_take_subset filter_is_subset subset_trans)
    with h have "\<forall>r\<in>set ?ds. base r \<noteq> JNull" by blast
    from sealAll_total [OF this, of pf] obtain ss where "sealAll pf ?ds = Inr ss"
      and "map doc ss = ?ds"
      and "\<forall>s\<in>set ss. base (doc s) = JUndefined \<longrightarrow> integrityHash s = empty_seal pf"
      by blast
    with h show ?thesis by (simp add: pokemonsSearch_def)
  qed
  show "integrityHash s = empty_seal pf"
    if resp: "pokemons pf st = \<lparr>status = 200, payload = Listing ss\<rparr>
         \<or> pokemonsByPage pf st page = \<lparr>status = 200, payload = Listing ss\<rparr>
         \<or> pokemonsSearch pf st q = \<lparr>status = 200, payload = Listing ss\<rparr>"
      and mem: "s \<in> set ss" and d: "doc s = d" for ss s
  proof -
    from resp obtain ds where "sealAll pf ds = Inr ss"
      using listing_pokemons listing_page listing_search by blast
    then show ?thesis using mem d assms by (intro sealAll_missing_base) simp_all
  qed
  show "pokemons pf st
        = \<lparr>status = 200, payload = Listing (map (\<lambda>r. \<lparr>doc = r, integrityHash = empty_seal pf\<rparr>) st)\<rparr>"
    if "\<forall>r\<in>set st. base r = JUndefined"
    using that by (simp add: pokemons_def sealAll_all_missing)
qed

lemma sample_empty_seal:
  "empty_seal sample_platform = ascii ''hmac(pokedex-zero-trust-seal,{})''"
  by (simp add: empty_seal_def INTEGRITY_SECRET_def sample_platform_def readable_digest_def ascii_def)

lemma parse_seven: "parseInt10 (ascii ''7'') = Finite 7"
  by (simp add: parseInt10_def ascii_def js_whitespace_def is_digit_def digits_value_def)

lemma page_zero: "pageNumber (ascii ''0'') = 0"
  by (simp add: pageNumber_def parseInt10_def ascii_def js_whitespace_def is_digit_def digits_value_def)

lemma trim_pik: "trim (ascii ''pik'') = ascii ''pik''" "trim (ascii ''pika'') = ascii ''pika''"
  by (simp_all add: trim_def js_whitespace_def ascii_def)

lemma pika_is_hit:
  "searchMatches sample_platform (normalizeForSearch sample_platform (ascii ''pik''))
     (sample_pokemon 7 (ascii ''Pika'') (ascii ''Pika'') JUndefined)"
  by (simp add: searchMatches_def normalizeForSearch_def trim_def js_whitespace_def
      combining_mark_def sample_decompose_def ascii_lower_def sample_platform_def
      sample_pokemon_def ascii_def)

lemma pika_exact:
  "findDuplicate sample_platform [sample_pokemon 7 (ascii ''Pika'') (ascii ''Pika'') JUndefined]
     (ascii ''pika'') (ascii ''pika'')
   = Some (sample_pokemon 7 (ascii ''Pika'') (ascii ''Pika'') JUndefined)"
  by (simp add: findDuplicate_def regex_test_i_def anchored_literal_def exactNameRegex_def
      escapeRegExp_def regex_special_def is_alnum_def is_digit_def ascii_lower_def
      sample_pokemon_def sample_platform_def ascii_def)

theorem missing_base_sealed_as_empty_witness:
  "base (sample_pokemon 7 (ascii ''Pika'') (ascii ''Pika'') JUndefined) = JUndefined
   \<and> withIntegrityHash sample_platform (sample_pokemon 7 (ascii ''Pika'') (ascii ''Pika'') JUndefined)
      = Inr \<lparr>doc = sample_pokemon 7 (ascii ''Pika'') (ascii ''Pika'') JUndefined,
             integrityHash = ascii ''hmac(pokedex-zero-trust-seal,{})''\<rparr>
   \<and> getPokemonById sample_platform [sample_pokemon 7 (ascii ''Pika'') (ascii ''Pika'') JUndefined]
        (ascii ''7'')
      = \<lparr>status = 200, payload = Single
           \<lparr>doc = sample_pokemon 7 (ascii ''Pika'') (ascii ''Pika'') JUndefined,
            integrityHash = ascii ''hmac(pokedex-zero-trust-seal,{})''\<rparr>\<rparr>
   \<and> getPokemonByName sample_platform [sample_pokemon 7 (ascii ''Pika'') (ascii ''Pika'') JUndefined]
        (ascii ''Pika'')
      = \<lparr>status = 200, payload = Single
           \<lparr>doc = sample_pokemon 7 (ascii ''Pika'') (ascii ''Pika'') JUndefined,
            integrityHash = ascii ''hmac(pokedex-zero-trust-seal,{})''\<rparr>\<rparr>
   \<and> getPokemonExactByName sample_platform
        [sample_pokemon 7 (ascii ''Pika'') (ascii ''Pika'') JUndefined] (ascii ''pika'')
      = \<lparr>status = 200, payload = Single
           \<lparr>doc = sample_pokemon 7 (ascii ''Pika'') (ascii ''Pika'') JUndefined,
            integrityHash = ascii ''hmac(pokedex-zero-trust-seal,{})''\<rparr>\<rparr>
   \<and> pokemons sample_platform [sample_pokemon 7 (ascii ''Pika'') (ascii ''Pika'') JUndefined]
      = \<lparr>status = 200, payload = Listing
           [\<lparr>doc = sample_pokemon 7 (ascii ''Pika'') (ascii ''Pika'') JUndefined,
             integrityHash = ascii ''hmac(pokedex-zero-trust-seal,{})''\<rparr>]\<rparr>
   \<and> pokemonsByPage sample_platform [sample_pokemon 7 (ascii ''Pika'') (ascii ''Pika'') JUndefined]
        (ascii ''0'')
      = \<lparr>status = 200, payload = Listing
           [\<lparr>doc = sample_pokemon 7 (ascii ''Pika'') (ascii ''Pika'') JUndefined,
             integrityHash = ascii ''hmac(pokedex-zero-trust-seal,{})''\<rparr>]\<rparr>
   \<and> pokemonsSearch sample_platform [sample_pokemon 7 (ascii ''Pika'') (ascii ''Pika'') JUndefined]
        (Some (ascii ''pik''))
      = \<lparr>status = 200, payload = Listing
           [\<lparr>doc = sample_pokemon 7 (ascii ''Pika'') (ascii ''Pika'') JUndefined,
             integrityHash = ascii ''hmac(pokedex-zero-trust-seal,{})''\<rparr>]\<rparr>"
proof -
  let ?d = "sample_pokemon 7 (ascii ''Pika'') (ascii ''Pika'') JUndefined"
  let ?h = "ascii ''hmac(pokedex-zero-trust-seal,{})''"
  have b: "base ?d = JUndefined" by (simp add: sample_pokemon_def)
  have sealable: "\<forall>r\<in>set [?d]. base r \<noteq> JNull" using b by simp
  have by_id: "findOneById [?d] (parseInt10 (ascii ''7'')) = Inr (Some ?d)"
    by (simp add: parse_seven findOneById_def sample_pokemon_def)
  have by_name: "find (\<lambda>p. name_english p = ascii ''Pika'') [?d] = Some ?d"
    by (simp add: sample_pokemon_def)
  have exact: "trim (ascii ''pika'') \<noteq> []
      \<and> findDuplicate sample_platform [?d] (trim (ascii ''pika'')) (trim (ascii ''pika'')) = Some ?d"
    by (simp add: trim_pik pika_exact) (simp add: ascii_def)
  have page: "0 \<le> pageNumber (ascii ''0'') \<and> 20 * pageNumber (ascii ''0'') < 2147483648"
    by (simp add: page_zero)
  have query: "trim (ascii ''pik'') \<noteq> []" by (simp add: trim_pik) (simp add: ascii_def)
  note inst = missing_base_sealed_as_empty [OF b, where pf = sample_platform and st = "[?d]"
      and idParam = "ascii ''7''" and n = "ascii ''Pika''" and page = "ascii ''0''"
      and query = "ascii ''pik''", unfolded sample_empty_seal]
  note inst_exact = missing_base_sealed_as_empty [OF b, where pf = sample_platform and st = "[?d]"
      and n = "ascii ''pika''", unfolded sample_empty_seal]
  have one: "withIntegrityHash sample_platform ?d = Inr \<lparr>doc = ?d, integrityHash = ?h\<rparr>"
    using inst [THEN conjunct2, THEN conjunct1] .
  have two: "getPokemonById sample_platform [?d] (ascii ''7'')
      = \<lparr>status = 200, payload = Single \<lparr>doc = ?d, integrityHash = ?h\<rparr>\<rparr>"
    using inst [THEN conjunct2, THEN conjunct2, THEN conjunct1] by_id by (rule mp)
  have three: "getPokemonByName sample_platform [?d] (ascii ''Pika'')
      = \<lparr>status = 200, payload = Single \<lparr>doc = ?d, integrityHash = ?h\<rparr>\<rparr>"
    using inst [THEN conjunct2, THEN conjunct2, THEN conjunct2, THEN conjunct1] by_name
    by (rule mp)
  have four: "getPokemonExactByName sample_platform [?d] (ascii ''pika'')
      = \<lparr>status = 200, payload = Single \<lparr>doc = ?d, integrityHash = ?h\<rparr>\<rparr>"
    using inst_exact [THEN conjunct2, THEN conjunct2, THEN conjunct2, THEN conjunct2,
        THEN conjunct1] exact
    by (rule mp)
  have "\<exists>ss. pokemons sample_platform [?d] = \<lparr>status = 200, payload = Listing ss\<rparr>
      \<and> map doc ss = [?d]
      \<and> (\<forall>s\<in>set ss. base (doc s) = JUndefined \<longrightarrow> integrityHash s = ?h)"
    using inst [THEN conjunct2, THEN conjunct2, THEN conjunct2, THEN conjunct2, THEN conjunct2,
        THEN conjunct1] sealable
    by (rule mp)
  then obtain ss where "pokemons sample_platform [?d] = \<lparr>status = 200, payload = Listing ss\<rparr>"
    and "map doc ss = [?d]"
    and "\<forall>s\<in>set ss. base (doc s) = JUndefined \<longrightarrow> integrityHash s = ?h"
    by (elim exE conjE)
  then have five: "pokemons sample_platform [?d]
      = \<lparr>status = 200, payload = Listing [\<lparr>doc = ?d, integrityHash = ?h\<rparr>]\<rparr>"
    using single_listing [OF _ b] by simp
  have "\<exists>ss. pokemonsByPage sample_platform [?d] (ascii ''0'') = \<lparr>status = 200, payload = Listing ss\<rparr>
      \<and> map doc ss = take 20 (drop (20 * nat (pageNumber (ascii ''0''))) [?d])
      \<and> (\<forall>s\<in>set ss. base (doc s) = JUndefined \<longrightarrow> integrityHash s = ?h)"
    using inst [THEN conjunct2, THEN conjunct2, THEN conjunct2, THEN conjunct2, THEN conjunct2,
        THEN conjunct2, THEN conjunct1] conjI [OF sealable page]
    by (rule mp)
  then obtain ss where
    "pokemonsByPage sample_platform [?d] (ascii ''0'') = \<lparr>status = 200, payload = Listing ss\<rparr>"
    and "map doc ss = take 20 (drop (20 * nat (pageNumber (ascii ''0''))) [?d])"
    and "\<forall>s\<in>set ss. base (doc s) = JUndefined \<longrightarrow> integrityHash s = ?h"
    by (elim exE conjE)
  then have six: "pokemonsByPage sample_platform [?d] (ascii ''0'')
      = \<lparr>status = 200, payload = Listing [\<lparr>doc = ?d, integrityHash = ?h\<rparr>]\<rparr>"
    using single_listing [OF _ b] by (simp add: page_zero)
  have "\<exists>ss. pokemonsSearch sample_platform [?d] (Some (ascii ''pik''))
        = \<lparr>status = 200, payload = Listing ss\<rparr>
      \<and> map doc ss
         = take 50 (filter (searchMatches sample_platform
                              (normalizeForSearch sample_platform (trim (ascii ''pik''))))
                      (take 1000 [?d]))
      \<and> (\<forall>s\<in>set ss. base (doc s) = JUndefined \<longrightarrow> integrityHash s = ?h)"
    using inst [THEN conjunct2, THEN conjunct2, THEN conjunct2, THEN conjunct2, THEN conjunct2,
        THEN conjunct2, THEN conjunct2, THEN conjunct1] conjI [OF sealable query]
    by (rule mp)
  then obtain ss where
    "pokemonsSearch sample_platform [?d] (Some (ascii ''pik'')) = \<lparr>status = 200, payload = Listing ss\<rparr>"
    and "map doc ss
         = take 50 (filter (searchMatches sample_platform
                              (normalizeForSearch sample_platform (trim (ascii ''pik''))))
                      (take 1000 [?d]))"
    and "\<forall>s\<in>set ss. base (doc s) = JUndefined \<longrightarrow> integrityHash s = ?h"
    by (elim exE conjE)
  then have seven: "pokemonsSearch sample_platform [?d] (Some (ascii ''pik''))
      = \<lparr>status = 200, payload = Listing [\<lparr>doc = ?d, integrityHash = ?h\<rparr>]\<rparr>"
    using single_listing [OF _ b] by (simp add: trim_pik pika_is_hit)
  from b one two three four five six seven show ?thesis by blast
qed

section \<open>Properties of the lookups\<close>

lemma parse_abc: "parseInt10 (ascii ''abc'') = NaN"
  by (simp add: parseInt10_def ascii_def js_whitespace_def is_digit_def)

text \<open>
  C10. The claim is that a get-by-id request whose id does not parse as an integer is
  answered 404. For the request \<^verbatim>\<open>GET /pokemons/abc\<close> the id is \<open>NaN\<close>, the driver of
  the store rejects the filter, and the handler answers 500.
\<close>

theorem unparseable_id_internal_error:
  "parseInt10 (ascii ''abc'') = NaN
   \<and> findOneById st (parseInt10 (ascii ''abc'')) = Inl CastError
   \<and> getPokemonById pf st (ascii ''abc'')
      = \<lparr>status = 500, payload = ErrorReply (ascii ''Internal Server Error'')\<rparr>"
  by (simp add: parse_abc getPokemonById_def findOneById_def internal_error_def)

lemma id_lookup_finite:
  assumes "parseInt10 idParam = Finite i" and "\<bar>i\<bar> \<le> 9007199254740992"
  shows "getPokemonById pf st idParam = respondOne pf (find (\<lambda>p. pokemon_id p = i) st)"
  using assms by (simp add: getPokemonById_def findOneById_def)

text \<open>
  The limit of an audit lookup: when \<open>auditLimit\<close> is a number it lies between 1 and
  100, it is 20 without a limit, and the lookup then answers with at most that many
  entries, each an entry of the audit store whose name the expression matches, newest
  first.
\<close>

lemma audit_limit_range: "auditLimit q = Finite n \<Longrightarrow> 1 \<le> n \<and> n \<le> 100"
  by (cases "parseInt10 (case q of None \<Rightarrow> ascii ''20'' | Some l \<Rightarrow> if l = [] then ascii ''20'' else l)")
     (auto simp: auditLimit_def)

lemma parse_twenty: "parseInt10 (ascii ''20'') = Finite 20"
  by (simp add: parseInt10_def ascii_def js_whitespace_def is_digit_def digits_value_def)

lemma audit_limit_default: "auditLimit None = Finite 20" "auditLimit (Some []) = Finite 20"
  by (simp_all add: auditLimit_def parse_twenty)

lemma audit_lookup_finite:
  assumes "decodeURIComponent pf nameParam = Some decoded" and "auditLimit q = Finite n"
  shows "\<exists>logs. auditLogs pf audits nameParam q = \<lparr>status = 200, payload = Logs logs\<rparr>
     \<and> length logs \<le> nat n
     \<and> (\<forall>e\<in>set logs. e \<in> set audits
           \<and> regex_test_i pf (exactNameRegex (trim decoded)) (pokemonName e))
     \<and> sorted (map (\<lambda>e. - int (createdAt e)) logs)"
proof -
  define found where "found = sort_key (\<lambda>e. - int (createdAt e))
     (filter (\<lambda>e. regex_test_i pf (exactNameRegex (trim decoded)) (pokemonName e)) audits)"
  have r: "auditLogs pf audits nameParam q = \<lparr>status = 200, payload = Logs (take (nat n) found)\<rparr>"
    using assms by (simp add: auditLogs_def Let_def found_def)
  have "sorted (map (\<lambda>e. - int (createdAt e)) found)"
    unfolding found_def by (rule sorted_sort_key)
  then have "sorted (take (nat n) (map (\<lambda>e. - int (createdAt e)) found))"
    by (rule sorted_wrt_take)
  then have s: "sorted (map (\<lambda>e. - int (createdAt e)) (take (nat n) found))"
    by (simp only: take_map)
  have sub: "set (take (nat n) found) \<subseteq> set found" by (rule set_take_subset)
  have "set found = {e \<in> set audits. regex_test_i pf (exactNameRegex (trim decoded)) (pokemonName e)}"
    unfolding found_def by (simp only: set_sort set_filter)
  with sub have m: "\<forall>e\<in>set (take (nat n) found). e \<in> set audits
           \<and> regex_test_i pf (exactNameRegex (trim decoded)) (pokemonName e)"
    by blast
  have l: "length (take (nat n) found) \<le> nat n" by simp
  from r s m l show ?thesis by blast
qed

lemma abc_nonempty: "ascii ''abc'' \<noteq> []"
  by (simp add: ascii_def)

text \<open>
  C8. The claim is that the effective limit of every audit lookup lies between 1 and
  100. For the request \<^verbatim>\<open>GET /auditLogs/pikachu?limit=abc\<close> the code computes \<open>NaN\<close>:
  the default replaces a missing limit, not one that does not parse.
\<close>

theorem audit_limit_unparseable:
  "auditLimit (Some (ascii ''abc'')) = NaN"
  by (simp add: auditLimit_def abc_nonempty parse_abc)

section \<open>Properties of the create handler\<close>

lemma special_not_alnum: "regex_special c \<Longrightarrow> \<not> is_alnum c"
  by (auto simp: regex_special_def is_alnum_def is_digit_def)

lemma regex_literal_escape: "regex_literal (escapeRegExp s) = Some s"
proof (induction s)
  case Nil
  then show ?case by (simp add: escapeRegExp_def)
next
  case (Cons c cs)
  have IH: "regex_literal (escapeRegExp cs) = Some cs" by (rule Cons.IH)
  show ?case
  proof (cases "regex_special c")
    case True
    then have "escapeRegExp (c # cs) = 92 # c # escapeRegExp cs" by (simp add: escapeRegExp_def)
    with True IH show ?thesis by (simp add: special_not_alnum)
  next
    case False
    then have e: "escapeRegExp (c # cs) = c # escapeRegExp cs" by (simp add: escapeRegExp_def)
    from False have c92: "c \<noteq> 92" by (auto simp: regex_special_def)
    show ?thesis
    proof (cases "escapeRegExp cs")
      case Nil
      with IH have "cs = []" by simp
      with e Nil False show ?thesis by simp
    next
      case (Cons d p)
      with e False c92 IH show ?thesis by simp
    qed
  qed
qed

lemma anchored_literal_exact: "anchored_literal (exactNameRegex s) = Some s"
  by (simp add: anchored_literal_def exactNameRegex_def regex_literal_escape)

lemma regex_test_ci_equal: "ci_equal pf subject lit \<Longrightarrow> regex_test_i pf (exactNameRegex lit) subject"
  by (simp add: regex_test_i_def anchored_literal_exact ci_equal_def)

lemma truthy_falsy: "truthy v = (\<not> falsy v)"
  by (cases v) (auto simp: falsy_def)

lemma name_cond: "(\<not> truthy a \<or> \<not> truthy b) = (falsy a \<or> falsy b)"
  by (simp add: truthy_falsy)

lemma type_cond: "(\<not> isArray v \<or> length (array_elems v) = 0) = (\<not> nonempty_array v)"
  by (cases v) (auto simp: nonempty_array_def)

lemma base_cond: "(\<not> truthy v \<or> \<not> typeof_object v) = (\<not> object_or_array v)"
  by (cases v) (auto simp: object_or_array_def)

lemma url_cond: "(\<not> truthy v \<or> \<not> typeof_string v) = (\<not> nonempty_string v)"
  by (cases v) (auto simp: nonempty_string_def)

lemma validateCreate_shape:
  "validateCreate nameV typeV baseV imageUrlV =
     (if falsy (ownProp nameV (ascii ''english'')) \<or> falsy (ownProp nameV (ascii ''french''))
      then Some (ascii ''name.english and name.french are required'')
      else if \<not> nonempty_array typeV then Some (ascii ''type must be a non-empty array'')
      else if \<not> object_or_array baseV then Some (ascii ''base stats are required'')
      else if \<not> nonempty_string imageUrlV then Some (ascii ''imageUrl is required'')
      else None)"
  unfolding validateCreate_def name_cond type_cond base_cond url_cond by (rule refl)

lemma well_shaped_validate:
  "well_shaped req \<Longrightarrow>
   validateCreate (ownProp (body req) (ascii ''name'')) (body_type req) (body_base req) (body_imageUrl req) = None"
  by (simp add: validateCreate_shape well_shaped_def body_english_def body_french_def)

lemma create_well_shaped:
  assumes "well_shaped req" and "body_english req = JStr e" and "body_french req = JStr f"
    and "body_imageUrl req = JStr url"
  shows "pokemonCreate pf w req =
     (case findDuplicate pf (store w) e f of
        Some duplicate \<Rightarrow> (already_exists, w)
      | None \<Rightarrow> persistCreate pf w req e f (array_elems (body_type req)) (body_base req) url)"
proof -
  have v: "validateCreate (ownProp (body req) (ascii ''name'')) (ownProp (body req) (ascii ''type''))
             (ownProp (body req) (ascii ''base'')) (ownProp (body req) (ascii ''imageUrl'')) = None"
    using well_shaped_validate [OF assms(1)] by (simp add: body_type_def body_base_def body_imageUrl_def)
  have b: "body req \<noteq> JUndefined" "body req \<noteq> JNull" using assms(1) by (simp_all add: well_shaped_def)
  show ?thesis
    using assms(2,3,4) b v
    by (simp add: pokemonCreate_def Let_def body_english_def body_french_def body_imageUrl_def
        body_type_def body_base_def split: option.splits)
qed

text \<open>Runs of the handler on the sample runtime.\<close>

lemma sample_well_shaped:
  "english \<noteq> JUndefined \<Longrightarrow> english \<noteq> JNull \<Longrightarrow> english \<noteq> JBool False \<Longrightarrow> english \<noteq> JNum 0
   \<Longrightarrow> english \<noteq> JStr [] \<Longrightarrow> french \<noteq> JUndefined \<Longrightarrow> french \<noteq> JNull \<Longrightarrow> french \<noteq> JBool False
   \<Longrightarrow> french \<noteq> JNum 0 \<Longrightarrow> french \<noteq> JStr [] \<Longrightarrow> url \<noteq> []
   \<Longrightarrow> well_shaped (sample_request english french url)"
  by (simp add: body_defs ascii_def)

lemma sample_fields:
  "body_english (sample_request english french url) = english"
  "body_french (sample_request english french url) = french"
  "body_imageUrl (sample_request english french url) = JStr url"
  by (simp_all add: body_defs ascii_def)


lemma link_nonempty: "image_link \<noteq> []" "page_link \<noteq> []"
  by (simp_all add: image_link_def page_link_def ascii_def)

lemma create_first_pika:
  "pokemonCreate sample_platform empty_world
     (sample_request (JStr (ascii ''Pika'')) (JStr (ascii ''Pika'')) image_link)
   = (\<lparr>status = 201, payload = Single
        \<lparr>doc = \<lparr>pokemon_id = 1, name_english = ascii ''Pika'', name_french = ascii ''Pika'',
                types = [JStr (ascii ''Electric'')],
                base = JObj [(ascii ''HP'', JNum 35), (ascii ''Attack'', JNum 55)],
                image_url = ascii ''http://localhost:3000/assets/pokemons/1.png''\<rparr>,
         integrityHash = ascii ''hmac(pokedex-zero-trust-seal,{\"Attack\":55,\"HP\":35})''\<rparr>\<rparr>,
      \<lparr>store = [\<lparr>pokemon_id = 1, name_english = ascii ''Pika'', name_french = ascii ''Pika'',
                types = [JStr (ascii ''Electric'')],
                base = JObj [(ascii ''HP'', JNum 35), (ascii ''Attack'', JNum 55)],
                image_url = ascii ''http://localhost:3000/assets/pokemons/1.png''\<rparr>],
       assets = [(ascii ''1.png'', [137, 80, 78, 71])]\<rparr>)"
  by (simp add: create_defs regex_defs seal_defs sample_defs)

lemma create_raichu:
  "pokemonCreate sample_platform sample_world
     (sample_request (JStr (ascii ''Raichu'')) (JStr (ascii ''Raichu'')) image_link)
   = (\<lparr>status = 201, payload = Single
        \<lparr>doc = \<lparr>pokemon_id = 8, name_english = ascii ''Raichu'', name_french = ascii ''Raichu'',
                types = [JStr (ascii ''Electric'')],
                base = JObj [(ascii ''HP'', JNum 35), (ascii ''Attack'', JNum 55)],
                image_url = ascii ''http://localhost:3000/assets/pokemons/8.png''\<rparr>,
         integrityHash = ascii ''hmac(pokedex-zero-trust-seal,{\"Attack\":55,\"HP\":35})''\<rparr>\<rparr>,
      \<lparr>store = [sample_pokemon 7 (ascii ''Pika'') (ascii ''Pika'') JUndefined,
                \<lparr>pokemon_id = 8, name_english = ascii ''Raichu'', name_french = ascii ''Raichu'',
                types = [JStr (ascii ''Electric'')],
                base = JObj [(ascii ''HP'', JNum 35), (ascii ''Attack'', JNum 55)],
                image_url = ascii ''http://localhost:3000/assets/pokemons/8.png''\<rparr>],
       assets = [(ascii ''8.png'', [137, 80, 78, 71])]\<rparr>)"
  by (simp add: create_defs regex_defs seal_defs sample_defs)

lemma no_duplicate_raichu:
  "findDuplicate sample_platform (store sample_world) (ascii ''Raichu'') (ascii ''Raichu'') = None"
  by (simp add: regex_defs sample_defs)

text \<open>
  The duplicate check on names that are strings: for every create request whose body
  passes the validation of the shape and whose two names are strings, if a record
  exists whose english name equals the requested english name, or whose french name
  equals the requested french name, up to case, the create is answered 409 and the
  store and the image files stay as they were.
\<close>

lemma conflict_for_string_names:
  assumes "well_shaped req" and "body_english req = JStr e" and "body_french req = JStr f"
    and "\<exists>p\<in>set (store w). ci_equal pf (name_english p) e \<or> ci_equal pf (name_french p) f"
  shows "pokemonCreate pf w req =
     (\<lparr>status = 409, payload = ErrorReply (ascii ''Pokemon already exists (english or french name)'')\<rparr>, w)"
proof -
  from assms(1) obtain url where url: "body_imageUrl req = JStr url"
    by (cases "body_imageUrl req") (auto simp: well_shaped_def nonempty_string_def)
  from assms(4) obtain p where "p \<in> set (store w)"
    and "regex_test_i pf (exactNameRegex e) (name_english p)
         \<or> regex_test_i pf (exactNameRegex f) (name_french p)"
    using regex_test_ci_equal by blast
  then have "findDuplicate pf (store w) e f \<noteq> None"
    by (auto simp: findDuplicate_def find_None_iff)
  then show ?thesis
    using create_well_shaped [OF assms(1,2,3) url, of pf w]
    by (auto simp: already_exists_def)
qed

text \<open>
  The example of the specification: Pika/Pika is created in an empty store, then
  pika/Autre is rejected.
\<close>

lemma conflict_pika_autre:
  "well_shaped (sample_request (JStr (ascii ''pika'')) (JStr (ascii ''Autre'')) image_link)
   \<and> status (fst (pokemonCreate sample_platform empty_world
        (sample_request (JStr (ascii ''Pika'')) (JStr (ascii ''Pika'')) image_link))) = 201
   \<and> (\<exists>p\<in>set (store (snd (pokemonCreate sample_platform empty_world
             (sample_request (JStr (ascii ''Pika'')) (JStr (ascii ''Pika'')) image_link)))).
         ci_equal sample_platform (name_english p) (ascii ''pika'')
         \<or> ci_equal sample_platform (name_french p) (ascii ''Autre''))
   \<and> pokemonCreate sample_platform
        (snd (pokemonCreate sample_platform empty_world
           (sample_request (JStr (ascii ''Pika'')) (JStr (ascii ''Pika'')) image_link)))
        (sample_request (JStr (ascii ''pika'')) (JStr (ascii ''Autre'')) image_link)
      = (\<lparr>status = 409, payload = ErrorReply (ascii ''Pokemon already exists (english or french name)'')\<rparr>,
         snd (pokemonCreate sample_platform empty_world
           (sample_request (JStr (ascii ''Pika'')) (JStr (ascii ''Pika'')) image_link)))"
proof -
  let ?second = "sample_request (JStr (ascii ''pika'')) (JStr (ascii ''Autre'')) image_link"
  let ?w = "snd (pokemonCreate sample_platform empty_world
           (sample_request (JStr (ascii ''Pika'')) (JStr (ascii ''Pika'')) image_link))"
  have shape: "well_shaped ?second"
    by (rule sample_well_shaped) (simp_all add: ascii_def link_nonempty)
  have first: "status (fst (pokemonCreate sample_platform empty_world
        (sample_request (JStr (ascii ''Pika'')) (JStr (ascii ''Pika'')) image_link))) = 201"
    by (simp add: create_first_pika)
  have "ci_equal sample_platform (ascii ''Pika'') (ascii ''pika'')"
    by (simp add: ci_equal_def sample_platform_def ascii_lower_def ascii_def)
  then have dup: "\<exists>p\<in>set (store ?w). ci_equal sample_platform (name_english p) (ascii ''pika'')
         \<or> ci_equal sample_platform (name_french p) (ascii ''Autre'')"
    by (simp add: create_first_pika)
  from conflict_for_string_names [OF shape sample_fields(1) sample_fields(2) dup] shape first dup
  show ?thesis by blast
qed

text \<open>
  C3. The claim is that every create request whose body passes the validation of the
  shape and that names a stored record, up to case, in either language is answered 409
  with nothing persisted. For a body whose english name is the number 5 and whose
  french name is that of a stored record, the body passes the validation (the name is
  truthy) and the answer is 500: the duplicate check calls \<^verbatim>\<open>replace\<close> on the number,
  which is a \<open>TypeError\<close>. The world stays as it was.
\<close>

theorem create_duplicate_number_name:
  "well_shaped (sample_request (JNum 5) (JStr (ascii ''Pika'')) image_link)
   \<and> store sample_world = [sample_pokemon 7 (ascii ''Pika'') (ascii ''Pika'') JUndefined]
   \<and> ci_equal sample_platform
        (name_french (sample_pokemon 7 (ascii ''Pika'') (ascii ''Pika'') JUndefined)) (ascii ''Pika'')
   \<and> pokemonCreate sample_platform sample_world
        (sample_request (JNum 5) (JStr (ascii ''Pika'')) image_link)
      = (\<lparr>status = 500, payload = ErrorOf TypeError\<rparr>, sample_world)"
proof -
  have "well_shaped (sample_request (JNum 5) (JStr (ascii ''Pika'')) image_link)"
    by (rule sample_well_shaped) (simp_all add: ascii_def link_nonempty)
  moreover have "pokemonCreate sample_platform sample_world
        (sample_request (JNum 5) (JStr (ascii ''Pika'')) image_link)
      = (\<lparr>status = 500, payload = ErrorOf TypeError\<rparr>, sample_world)"
    by (simp add: create_defs sample_defs)
  ultimately show ?thesis
    by (simp add: sample_world_def sample_pokemon_def ci_equal_def)
qed

lemma download_fails:
  assumes "fetch pf (resolveDownloadUrl pf url) = Response st ct bytes"
    and "\<not> response_ok st \<or> \<not> startsWith (toLowerCase pf (header_or_empty ct)) (ascii ''image/'')"
  shows "\<exists>msg. downloadPokemonImage pf url = Inl (Thrown msg)"
  using assms by (auto simp: downloadPokemonImage_def Let_def)

text \<open>
  C4. For every create request that reaches the download (the body passes the
  validation, the names are strings and no duplicate is found), if the download fails
  the create is answered 500 with the message of the failure and the world is
  unchanged: no record is persisted. The download fails in particular when the
  response has a status outside 200 to 299 or a content type that, in lower case,
  does not begin with \<open>image/\<close>.
\<close>

theorem create_download_failure:
  assumes "well_shaped req" and "body_english req = JStr e" and "body_french req = JStr f"
    and "body_imageUrl req = JStr url" and "findDuplicate pf (store w) e f = None"
  shows "(\<forall>err. downloadPokemonImage pf url = Inl err \<longrightarrow>
            pokemonCreate pf w req = (\<lparr>status = 500, payload = ErrorOf err\<rparr>, w))
       \<and> (\<forall>st ct bytes. fetch pf (resolveDownloadUrl pf url) = Response st ct bytes
             \<and> (\<not> response_ok st \<or> \<not> startsWith (toLowerCase pf (header_or_empty ct)) (ascii ''image/''))
            \<longrightarrow> (\<exists>msg. pokemonCreate pf w req = (\<lparr>status = 500, payload = ErrorOf (Thrown msg)\<rparr>, w)))"
proof -
  have step: "pokemonCreate pf w req = (\<lparr>status = 500, payload = ErrorOf err\<rparr>, w)"
    if "downloadPokemonImage pf url = Inl err" for err
    using create_well_shaped [OF assms(1,2,3,4), of pf w] assms(5) that
    by (simp add: persistCreate_def caught_def)
  show ?thesis
  proof (intro conjI allI impI)
    fix err assume "downloadPokemonImage pf url = Inl err"
    then show "pokemonCreate pf w req = (\<lparr>status = 500, payload = ErrorOf err\<rparr>, w)" by (rule step)
  next
    fix st ct bytes
    assume "fetch pf (resolveDownloadUrl pf url) = Response st ct bytes
             \<and> (\<not> response_ok st \<or> \<not> startsWith (toLowerCase pf (header_or_empty ct)) (ascii ''image/''))"
    then obtain msg where "downloadPokemonImage pf url = Inl (Thrown msg)"
      using download_fails by blast
    then have "pokemonCreate pf w req = (\<lparr>status = 500, payload = ErrorOf (Thrown msg)\<rparr>, w)"
      by (rule step)
    then show "\<exists>msg. pokemonCreate pf w req = (\<lparr>status = 500, payload = ErrorOf (Thrown msg)\<rparr>, w)" ..
  qed
qed

lemma fetch_page:
  "fetch sample_platform (resolveDownloadUrl sample_platform page_link)
   = Response 200 (Some (ascii ''text/html'')) [60, 104, 62]"
  by (simp add: resolveDownloadUrl_def sample_fetch_def sample_platform_def page_link_def ascii_def)

lemma page_is_no_image:
  "\<not> startsWith (toLowerCase sample_platform (header_or_empty (Some (ascii ''text/html''))))
       (ascii ''image/'')"
  by (simp add: header_or_empty_def sample_platform_def ascii_lower_def ascii_def)

theorem create_download_failure_witness:
  "well_shaped (sample_request (JStr (ascii ''Raichu'')) (JStr (ascii ''Raichu'')) page_link)
   \<and> findDuplicate sample_platform (store sample_world) (ascii ''Raichu'') (ascii ''Raichu'') = None
   \<and> fetch sample_platform (resolveDownloadUrl sample_platform page_link)
       = Response 200 (Some (ascii ''text/html'')) [60, 104, 62]
   \<and> \<not> startsWith (toLowerCase sample_platform (header_or_empty (Some (ascii ''text/html''))))
         (ascii ''image/'')
   \<and> (\<exists>msg. pokemonCreate sample_platform sample_world
               (sample_request (JStr (ascii ''Raichu'')) (JStr (ascii ''Raichu'')) page_link)
             = (\<lparr>status = 500, payload = ErrorOf (Thrown msg)\<rparr>, sample_world))"
proof -
  let ?req = "sample_request (JStr (ascii ''Raichu'')) (JStr (ascii ''Raichu'')) page_link"
  have shape: "well_shaped ?req"
    by (rule sample_well_shaped) (simp_all add: ascii_def link_nonempty)
  from create_download_failure
         [OF shape sample_fields(1) sample_fields(2) sample_fields(3) no_duplicate_raichu]
  have "\<forall>st ct bytes. fetch sample_platform (resolveDownloadUrl sample_platform page_link)
               = Response st ct bytes
             \<and> (\<not> response_ok st
                 \<or> \<not> startsWith (toLowerCase sample_platform (header_or_empty ct)) (ascii ''image/''))
            \<longrightarrow> (\<exists>msg. pokemonCreate sample_platform sample_world ?req
                    = (\<lparr>status = 500, payload = ErrorOf (Thrown msg)\<rparr>, sample_world))"
    by (rule conjunct2)
  with fetch_page page_is_no_image
  have "\<exists>msg. pokemonCreate sample_platform sample_world ?req
                    = (\<lparr>status = 500, payload = ErrorOf (Thrown msg)\<rparr>, sample_world)"
    by blast
  with shape no_duplicate_raichu fetch_page page_is_no_image show ?thesis by blast
qed







lemma foldl_latest:
  "pokemon_id (foldl (\<lambda>m q. if pokemon_id m < pokemon_id q then q else m) p ps)
   = Max (pokemon_id ` set (p # ps))"
proof (induction ps arbitrary: p)
  case Nil
  then show ?case by simp
next
  case (Cons q qs)
  let ?f = "\<lambda>m q. if pokemon_id m < pokemon_id q then q else m"
  have "pokemon_id (foldl ?f (?f p q) qs) = Max (pokemon_id ` set (?f p q # qs))"
    by (rule Cons.IH)
  also have "\<dots> = Max (insert (max (pokemon_id p) (pokemon_id q)) (pokemon_id ` set qs))"
    by (simp add: max_def)
  also have "\<dots> = Max (pokemon_id ` set (p # q # qs))"
    by (cases "qs = []") (simp_all add: max.assoc)
  finally show ?case by simp
qed

lemma nextId_max:
  "nextId st = js_plus_one (if st = [] then 0 else Max (pokemon_id ` set st))"
proof (cases st)
  case Nil
  then show ?thesis by (simp add: nextId_def)
next
  case (Cons p ps)
  then show ?thesis
    unfolding nextId_def by (simp only: latestById.simps option.case foldl_latest) simp
qed

lemma js_plus_one_exact: "\<bar>x\<bar> < 9007199254740992 \<Longrightarrow> js_plus_one x = x + 1"
  by (auto simp: js_plus_one_def round_double_def)

lemma persist_201:
  assumes "persistCreate pf w req e f tys b url = (r, w')" and "status r = 201"
  shows "\<exists>s. payload r = Single s \<and> store w' = store w @ [doc s]
            \<and> pokemon_id (doc s) = nextId (store w)"
  using assms
  by (auto simp: persistCreate_def Let_def caught_def split: sum.splits dest: with_hash_doc)

lemma create_201:
  assumes "pokemonCreate pf w req = (r, w')" and "status r = 201"
  shows "\<exists>e f tys b url. persistCreate pf w req e f tys b url = (r, w')"
  using assms
  apply (auto simp: pokemonCreate_def Let_def caught_def already_exists_def
      split: option.splits if_splits)
  apply (intro exI)
  apply assumption
  done

text \<open>
  C7 (as amended). For every successful create (the answer is 201) on a store whose
  greatest id is below \<open>2 ^ 53\<close> in magnitude, the new record is the one added to the
  store, and its id is 1 when the store was empty and the greatest id of the store
  plus 1 otherwise.
\<close>

theorem create_next_id:
  assumes "pokemonCreate pf w req = (r, w')" and "status r = 201"
    and "store w = [] \<or> \<bar>Max (pokemon_id ` set (store w))\<bar> < 9007199254740992"
  shows "\<exists>s. payload r = Single s \<and> store w' = store w @ [doc s]
            \<and> pokemon_id (doc s) = (if store w = [] then 1 else Max (pokemon_id ` set (store w)) + 1)"
proof -
  from create_201 [OF assms(1,2)] obtain e f tys b url
    where "persistCreate pf w req e f tys b url = (r, w')" by blast
  from persist_201 [OF this assms(2)] obtain s where s: "payload r = Single s"
    "store w' = store w @ [doc s]" "pokemon_id (doc s) = nextId (store w)"
    by blast
  have "nextId (store w) = (if store w = [] then 1 else Max (pokemon_id ` set (store w)) + 1)"
    using assms(3) by (auto simp: nextId_max js_plus_one_exact)
  with s show ?thesis by simp
qed

theorem create_next_id_witness:
  "status (fst (pokemonCreate sample_platform sample_world
      (sample_request (JStr (ascii ''Raichu'')) (JStr (ascii ''Raichu'')) image_link))) = 201
   \<and> \<bar>Max (pokemon_id ` set (store sample_world))\<bar> < 9007199254740992
   \<and> (\<exists>s. payload (fst (pokemonCreate sample_platform sample_world
               (sample_request (JStr (ascii ''Raichu'')) (JStr (ascii ''Raichu'')) image_link)))
             = Single s
          \<and> store (snd (pokemonCreate sample_platform sample_world
               (sample_request (JStr (ascii ''Raichu'')) (JStr (ascii ''Raichu'')) image_link)))
             = store sample_world @ [doc s]
          \<and> pokemon_id (doc s) = 8)"
proof -
  let ?run = "pokemonCreate sample_platform sample_world
      (sample_request (JStr (ascii ''Raichu'')) (JStr (ascii ''Raichu'')) image_link)"
  have run: "?run = (fst ?run, snd ?run)" by simp
  have ok: "status (fst ?run) = 201" by (simp add: create_raichu)
  have small: "\<bar>Max (pokemon_id ` set (store sample_world))\<bar> < 9007199254740992"
    by (simp add: sample_world_def sample_pokemon_def)
  then have bound: "store sample_world = []
      \<or> \<bar>Max (pokemon_id ` set (store sample_world))\<bar> < 9007199254740992"
    by simp
  have "(if store sample_world = [] then 1 else Max (pokemon_id ` set (store sample_world)) + 1) = 8"
    by (simp add: sample_world_def sample_pokemon_def)
  with create_next_id [OF run ok bound] ok small show ?thesis by simp
qed

text \<open>
  The claim as stated fails for a store whose greatest id is \<open>2 ^ 53\<close>: the sum
  \<open>2 ^ 53 + 1\<close> is no double and rounds to \<open>2 ^ 53\<close>, so the create is answered 201 and
  the new record gets the id \<open>2 ^ 53\<close>, that of the stored record, and not
  \<open>2 ^ 53 + 1\<close>.
\<close>

lemma create_at_large_id:
  "pokemonCreate sample_platform large_id_world
     (sample_request (JStr (ascii ''Raichu'')) (JStr (ascii ''Raichu'')) image_link)
   = (\<lparr>status = 201, payload = Single
         \<lparr>doc = \<lparr>pokemon_id = 9007199254740992, name_english = ascii ''Raichu'',
                  name_french = ascii ''Raichu'', types = [JStr (ascii ''Electric'')],
                  base = JObj [(ascii ''HP'', JNum 35), (ascii ''Attack'', JNum 55)],
                  image_url = ascii ''http://localhost:3000/assets/pokemons/9007199254740992.png''\<rparr>,
           integrityHash = ascii ''hmac(pokedex-zero-trust-seal,{\"Attack\":55,\"HP\":35})''\<rparr>\<rparr>,
      \<lparr>store = [sample_pokemon 9007199254740992 (ascii ''Pika'') (ascii ''Pika'') JUndefined,
                \<lparr>pokemon_id = 9007199254740992, name_english = ascii ''Raichu'',
                  name_french = ascii ''Raichu'', types = [JStr (ascii ''Electric'')],
                  base = JObj [(ascii ''HP'', JNum 35), (ascii ''Attack'', JNum 55)],
                  image_url = ascii ''http://localhost:3000/assets/pokemons/9007199254740992.png''\<rparr>],
        assets = [(ascii ''9007199254740992.png'', [137, 80, 78, 71])]\<rparr>)"
  by (simp add: create_defs regex_defs seal_defs sample_defs large_id_world_def bit_length.simps)

theorem create_next_id_counterexample:
  "status (fst (pokemonCreate sample_platform large_id_world
      (sample_request (JStr (ascii ''Raichu'')) (JStr (ascii ''Raichu'')) image_link))) = 201
   \<and> map pokemon_id (store large_id_world) = [9007199254740992]
   \<and> map pokemon_id (store (snd (pokemonCreate sample_platform large_id_world
        (sample_request (JStr (ascii ''Raichu'')) (JStr (ascii ''Raichu'')) image_link))))
      = [9007199254740992, 9007199254740992]"
  by (simp add: create_at_large_id) (simp add: large_id_world_def sample_pokemon_def)

section \<open>Properties of the search\<close>

lemma startsWith_iff: "startsWith s q = (\<exists>after. s = q @ after)"
  by (induction s q rule: startsWith.induct) auto

lemma js_includes_iff: "js_includes s q = substring_of q s"
proof (induction s)
  case Nil
  then show ?case by (simp add: substring_of_def)
next
  case (Cons c cs)
  have "substring_of q (c # cs) = ((\<exists>after. c # cs = q @ after) \<or> substring_of q cs)"
  proof
    assume "substring_of q (c # cs)"
    then obtain before after where eq: "c # cs = before @ q @ after"
      by (auto simp: substring_of_def)
    show "(\<exists>after. c # cs = q @ after) \<or> substring_of q cs"
    proof (cases before)
      case Nil
      with eq show ?thesis by auto
    next
      case (Cons b bs)
      with eq have "cs = bs @ q @ after" by simp
      then show ?thesis by (auto simp: substring_of_def)
    qed
  next
    assume "(\<exists>after. c # cs = q @ after) \<or> substring_of q cs"
    then show "substring_of q (c # cs)"
    proof
      assume "\<exists>after. c # cs = q @ after"
      then obtain after where "c # cs = [] @ q @ after" by auto
      then show ?thesis unfolding substring_of_def by blast
    next
      assume "substring_of q cs"
      then obtain before after where "cs = before @ q @ after" by (auto simp: substring_of_def)
      then have "c # cs = (c # before) @ q @ after" by simp
      then show ?thesis unfolding substring_of_def by blast
    qed
  qed
  with Cons show ?case by (simp add: startsWith_iff)
qed

lemma searchMatches_hit: "searchMatches pf nq = search_hit pf nq"
  by (simp add: fun_eq_iff searchMatches_def search_hit_def js_includes_iff)

lemma search_empty:
  "pokemonsSearch pf st None = \<lparr>status = 200, payload = Listing []\<rparr>"
  "trim q = [] \<Longrightarrow> pokemonsSearch pf st (Some q) = \<lparr>status = 200, payload = Listing []\<rparr>"
  by (simp_all add: pokemonsSearch_def trim_def)

lemma search_nonempty:
  assumes "trim q \<noteq> []"
  shows "pokemonsSearch pf st (Some q) =
     (case sealAll pf (take 50 (filter (search_hit pf (normalizeForSearch pf (trim q))) (take 1000 st))) of
        Inl e \<Rightarrow> internal_error
      | Inr ss \<Rightarrow> \<lparr>status = 200, payload = Listing ss\<rparr>)"
  using assms by (simp add: pokemonsSearch_def Let_def searchMatches_hit)

text \<open>
  C5. A search without a query, or with an empty or white-space query, is answered
  200 with the empty list. For any other query the answer is 200 with a list, or 500
  when a record cannot be sealed; the list that is answered holds, in the order of
  the store, the first 50 hits among the first 1000 records, a hit being a record
  whose normalised english or french name contains the normalised query; and the
  search is answered 200 whenever no stored \<open>base\<close> is \<open>null\<close>.
\<close>

theorem search_results:
  "pokemonsSearch pf st None = \<lparr>status = 200, payload = Listing []\<rparr>
   \<and> (trim q = [] \<longrightarrow> pokemonsSearch pf st (Some q) = \<lparr>status = 200, payload = Listing []\<rparr>)
   \<and> (trim q \<noteq> [] \<longrightarrow>
        (pokemonsSearch pf st (Some q) = internal_error
         \<or> (\<exists>ss. pokemonsSearch pf st (Some q) = \<lparr>status = 200, payload = Listing ss\<rparr>))
        \<and> (\<forall>ss. pokemonsSearch pf st (Some q) = \<lparr>status = 200, payload = Listing ss\<rparr> \<longrightarrow>
              map doc ss = take 50 (filter (search_hit pf (normalizeForSearch pf (trim q))) (take 1000 st))
              \<and> length ss \<le> 50)
        \<and> ((\<forall>p\<in>set st. base p \<noteq> JNull) \<longrightarrow>
              (\<exists>ss. pokemonsSearch pf st (Some q) = \<lparr>status = 200, payload = Listing ss\<rparr>)))"
proof (intro conjI impI allI)
  let ?hits = "take 50 (filter (search_hit pf (normalizeForSearch pf (trim q))) (take 1000 st))"
  show "pokemonsSearch pf st None = \<lparr>status = 200, payload = Listing []\<rparr>"
    by (rule search_empty)
  show "pokemonsSearch pf st (Some q) = \<lparr>status = 200, payload = Listing []\<rparr>" if "trim q = []"
    using that by (rule search_empty)
  show "pokemonsSearch pf st (Some q) = internal_error
         \<or> (\<exists>ss. pokemonsSearch pf st (Some q) = \<lparr>status = 200, payload = Listing ss\<rparr>)"
    if "trim q \<noteq> []"
    using search_nonempty [OF that, of pf st] by (cases "sealAll pf ?hits") simp_all
  show "map doc ss = ?hits"
    if "trim q \<noteq> []" and "pokemonsSearch pf st (Some q) = \<lparr>status = 200, payload = Listing ss\<rparr>" for ss
  proof -
    from that have "sealAll pf ?hits = Inr ss"
      using search_nonempty [of q pf st]
      by (cases "sealAll pf ?hits") (simp_all add: internal_error_def)
    then show ?thesis by (rule sealAll_docs)
  qed
  then show "length ss \<le> 50"
    if "trim q \<noteq> []" and "pokemonsSearch pf st (Some q) = \<lparr>status = 200, payload = Listing ss\<rparr>" for ss
  proof -
    from that have "map doc ss = ?hits" by fact
    then have "length ss = length ?hits" by (metis length_map)
    then show ?thesis by simp
  qed
  show "\<exists>ss. pokemonsSearch pf st (Some q) = \<lparr>status = 200, payload = Listing ss\<rparr>"
    if "trim q \<noteq> []" and nn: "\<forall>p\<in>set st. base p \<noteq> JNull"
  proof -
    have "\<forall>d\<in>set ?hits. base d \<noteq> JNull"
      using nn by (auto dest!: in_set_takeD)
    then obtain ss where "sealAll pf ?hits = Inr ss" using sealAll_ok by blast
    with search_nonempty [OF that(1), of pf st] show ?thesis by simp
  qed
qed

lemma search_pikachu:
  "pokemonsSearch sample_platform sample_store (Some (ascii ''pikachu''))
   = \<lparr>status = 200, payload = Listing
        [\<lparr>doc = sample_pokemon 25 (ascii ''Pichu'') [80, 239, 107, 257, 99, 104, 117] JUndefined,
          integrityHash = ascii ''hmac(pokedex-zero-trust-seal,{})''\<rparr>]\<rparr>"
  by (simp add: search_defs seal_defs sample_store_def sample_pokemon_def sample_platform_def ascii_def)

text \<open>
  The example of the claim: the query \<open>pikachu\<close> finds the record whose french name
  is written with \<open>U+00EF\<close> and \<open>U+0101\<close>, and no other.
\<close>

theorem search_results_witness:
  "trim (ascii ''pikachu'') \<noteq> []
   \<and> pokemonsSearch sample_platform sample_store (Some (ascii ''pikachu''))
      = \<lparr>status = 200, payload = Listing
           [\<lparr>doc = sample_pokemon 25 (ascii ''Pichu'') [80, 239, 107, 257, 99, 104, 117] JUndefined,
             integrityHash = ascii ''hmac(pokedex-zero-trust-seal,{})''\<rparr>]\<rparr>
   \<and> [sample_pokemon 25 (ascii ''Pichu'') [80, 239, 107, 257, 99, 104, 117] JUndefined]
      = take 50 (filter (search_hit sample_platform
                           (normalizeForSearch sample_platform (trim (ascii ''pikachu''))))
                   (take 1000 sample_store))"
proof -
  have t: "trim (ascii ''pikachu'') \<noteq> []"
    by (simp add: trim_def js_whitespace_def ascii_def)
  from search_results [of sample_platform sample_store "ascii ''pikachu''"] t search_pikachu
  show ?thesis by simp
qed

end
